theory Spec2Isabelle
  imports Main "HOL-Library.Word" "HOL-Library.Multiset"
begin

section \<open>The Go library functions the packages call\<close>

text \<open>
  Go strings are byte sequences, as \<^typ>\<open>string\<close> is. The functions below follow the
  Go standard library (packages strings, path, strconv), restricted to the arguments the
  two packages pass: a one-byte separator or cutset, base 10 and 64 bits.
\<close>

subsection \<open>Package strings\<close>

text \<open>\<^verbatim>\<open>strings.Split(s, sep)\<close> for a one-byte separator: all the pieces between
  separators, so the empty string gives one empty piece.\<close>

fun Split :: "string \<Rightarrow> char \<Rightarrow> string list" where
  "Split [] sep = [[]]"
| "Split (c # cs) sep =
     (if c = sep then [] # Split cs sep
      else (case Split cs sep of [] \<Rightarrow> [[c]] | piece # pieces \<Rightarrow> (c # piece) # pieces))"

text \<open>\<^verbatim>\<open>strings.SplitN(s, sep, 2)\<close> for a one-byte separator: one piece when the
  separator does not occur, else the text before and the text after its first occurrence.\<close>

definition SplitN2 :: "string \<Rightarrow> char \<Rightarrow> string list" where
  "SplitN2 s sep =
     (if sep \<in> set s
      then [takeWhile (\<lambda>c. c \<noteq> sep) s, tl (dropWhile (\<lambda>c. c \<noteq> sep) s)]
      else [s])"

text \<open>\<^verbatim>\<open>strings.Trim(s, cutset)\<close> for a one-byte cutset: all leading and trailing
  occurrences of the byte are removed.\<close>

definition Trim :: "string \<Rightarrow> char \<Rightarrow> string" where
  "Trim s cutset = rev (dropWhile (\<lambda>c. c = cutset) (rev (dropWhile (\<lambda>c. c = cutset) s)))"

text \<open>\<^verbatim>\<open>strings.Join(elems, sep)\<close>.\<close>

fun JoinStrings :: "string list \<Rightarrow> string \<Rightarrow> string" where
  "JoinStrings [] sep = []"
| "JoinStrings [s] sep = s"
| "JoinStrings (s # t # ss) sep = s @ sep @ JoinStrings (t # ss) sep"

subsection \<open>Package path\<close>

text \<open>\<^verbatim>\<open>path.Base\<close>: the last element of the path. Trailing slashes are removed
  first; the empty path gives \<open>.\<close> and a path of slashes only gives \<open>/\<close>.\<close>

definition Base :: "string \<Rightarrow> string" where
  "Base p =
     (if p = [] then ''.''
      else
        let stripped = rev (dropWhile (\<lambda>c. c = CHR ''/'') (rev p));
            lastElem = rev (takeWhile (\<lambda>c. c \<noteq> CHR ''/'') (rev stripped))
        in if lastElem = [] then ''/'' else lastElem)"

text \<open>\<^verbatim>\<open>path.Clean\<close>: empty elements and \<open>.\<close> are dropped, \<open>..\<close> removes the
  element before it (at the root it is dropped, in a relative path with nothing to remove
  it is kept); the empty result is \<open>.\<close>.\<close>

fun cleanStep :: "bool \<Rightarrow> string list \<Rightarrow> string \<Rightarrow> string list" where
  "cleanStep rooted out e =
     (if e = [] \<or> e = ''.'' then out
      else if e = ''..'' then
        (if out \<noteq> [] \<and> last out \<noteq> ''..'' then butlast out
         else if rooted then out
         else out @ [e])
      else out @ [e])"

definition Clean :: "string \<Rightarrow> string" where
  "Clean p =
     (if p = [] then ''.''
      else
        let rooted = (hd p = CHR ''/'');
            out = foldl (cleanStep rooted) [] (Split p (CHR ''/''))
        in if rooted then CHR ''/'' # JoinStrings out ''/''
           else if out = [] then ''.''
           else JoinStrings out ''/'')"

text \<open>\<^verbatim>\<open>path.Join\<close>: empty elements are ignored, the rest joined with slashes and
  cleaned; no non-empty element gives the empty string.\<close>

definition Join :: "string list \<Rightarrow> string" where
  "Join elem =
     (let nonEmpty = filter (\<lambda>e. e \<noteq> []) elem
      in if nonEmpty = [] then [] else Clean (JoinStrings nonEmpty ''/''))"

subsection \<open>Package strconv\<close>

datatype num_error = ErrSyntax | ErrRange

type_synonym uint64 = "64 word"

text \<open>\<^verbatim>\<open>strconv.ParseUint(s, 10, 64)\<close>: the digit loop with its two overflow checks
  (\<open>cutoff\<close> is \<open>maxUint64/10 + 1\<close>). With base 10 given, a sign, an underscore or a
  letter is a syntax error, as is the empty string.\<close>

definition isDigit :: "char \<Rightarrow> bool" where
  "isDigit c = (48 \<le> (of_char c :: nat) \<and> (of_char c :: nat) \<le> 57)"

definition maxUint64 :: uint64 where
  "maxUint64 = 18446744073709551615"

fun parseDigits :: "uint64 \<Rightarrow> string \<Rightarrow> num_error + uint64" where
  "parseDigits n [] = Inr n"
| "parseDigits n (c # cs) =
     (if \<not> isDigit c then Inl ErrSyntax
      else if n \<ge> maxUint64 div 10 + 1 then Inl ErrRange
      else
        let n10 = n * 10;
            n1 = n10 + (of_nat (of_char c - 48) :: uint64)
        in if n1 < n10 \<or> n1 > maxUint64 then Inl ErrRange
           else parseDigits n1 cs)"

definition ParseUint :: "string \<Rightarrow> num_error + uint64" where
  "ParseUint s = (if s = [] then Inl ErrSyntax else parseDigits 0 s)"

subsection \<open>Package os and the errors of github.com/pkg/errors\<close>

datatype errno = ENOENT | EACCES | ENOTDIR | EIO

datatype os_error = PathError (Op: string) (Path: string) (Err: errno)

fun errno_text :: "errno \<Rightarrow> string" where
  "errno_text ENOENT = ''no such file or directory''"
| "errno_text EACCES = ''permission denied''"
| "errno_text ENOTDIR = ''not a directory''"
| "errno_text EIO = ''input/output error''"

definition os_error_text :: "os_error \<Rightarrow> string" where
  "os_error_text e = Op e @ '' '' @ Path e @ '': '' @ errno_text (Err e)"

text \<open>\<^verbatim>\<open>os.IsNotExist(err)\<close>; \<open>None\<close> is the nil error.\<close>

fun IsNotExist :: "os_error option \<Rightarrow> bool" where
  "IsNotExist None = False"
| "IsNotExist (Some e) = (Err e = ENOENT)"

text \<open>An error value: the error of a library call, a message made by
  \<^verbatim>\<open>errors.Errorf\<close>, or \<^verbatim>\<open>errors.Wrap(err, message)\<close>.\<close>

datatype error =
    OsErr os_error
  | NumErr num_error
  | ExecErr string
  | Errorf string
  | Wrap error string

text \<open>\<^verbatim>\<open>errors.Cause(err)\<close>: the error under all the wrappers.\<close>

fun Cause :: "error \<Rightarrow> error" where
  "Cause (Wrap err message) = Cause err"
| "Cause (OsErr e) = OsErr e"
| "Cause (NumErr e) = NumErr e"
| "Cause (ExecErr m) = ExecErr m"
| "Cause (Errorf m) = Errorf m"

text \<open>What the packages read of the host: the results of \<^verbatim>\<open>os.Stat\<close> (the file
  information is never used), \<^verbatim>\<open>ioutil.ReadFile\<close>, \<^verbatim>\<open>os.Open\<close>
  and \<^verbatim>\<open>Readdirnames(-1)\<close> on each path.\<close>

record filesystem =
  Stat :: "string \<Rightarrow> os_error option"
  ReadFile :: "string \<Rightarrow> os_error + string"
  Open :: "string \<Rightarrow> os_error option"
  Readdirnames :: "string \<Rightarrow> os_error + string list"

section \<open>Package block\<close>

definition sysfsBlockRoot :: string where
  "sysfsBlockRoot = ''/sys/block''"

definition sectorSizeBytes :: uint64 where
  "sectorSizeBytes = 512"

datatype Type = TypeUnknown | TypeDisk | TypeRAID | TypeDeviceMapper

record Device =
  Name :: string
  Size :: uint64
  Type :: Type

text \<open>\<^verbatim>\<open>exists\<close> returns the pair the Go function returns.\<close>

definition exists :: "filesystem \<Rightarrow> string \<Rightarrow> bool \<times> os_error option" where
  "exists fs p =
     (let err = Stat fs p in
      if err = None then (True, None)
      else if IsNotExist err then (False, None)
      else (True, err))"

definition discoverDeviceType :: "filesystem \<Rightarrow> string \<Rightarrow> error + Type" where
  "discoverDeviceType fs sysfsPath =
     (let mdPath = Join [sysfsPath, ''md''];
          (mdPathExists, err) = exists fs mdPath in
      if err \<noteq> None then Inl (Errorf (''failed to discover device type for '' @ sysfsPath))
      else if mdPathExists then Inr TypeRAID
      else
        let dmPath = Join [sysfsPath, ''dm''];
            (dmPathExists, err) = exists fs dmPath in
        if err \<noteq> None then Inl (Errorf (''failed to discover device type for '' @ sysfsPath))
        else if dmPathExists then Inr TypeDeviceMapper
        else
          let devicePath = Join [sysfsPath, ''device''];
              (devicePathExists, err) = exists fs devicePath in
          if err \<noteq> None then Inl (Errorf (''failed to discover device type for '' @ sysfsPath))
          else if devicePathExists then Inr TypeDisk
          else Inr TypeUnknown)"

definition NewDevice :: "filesystem \<Rightarrow> string \<Rightarrow> error + Device" where
  "NewDevice fs devicePath =
     (let name = Base devicePath;
          sysfsPath = Join [sysfsBlockRoot, name] in
      if IsNotExist (Stat fs sysfsPath)
      then Inl (Errorf (''device '' @ sysfsPath @ '' does not exist''))
      else
        let sizeFilePath = Join [sysfsPath, ''size''] in
        case ReadFile fs sizeFilePath of
          Inl err \<Rightarrow>
            Inl (Wrap (OsErr err) (''failed to read '' @ os_error_text err @ '' for size''))
        | Inr sizeContent \<Rightarrow>
            let sizeString = Trim sizeContent (CHR 0x0A) in
            (case ParseUint sizeString of
               Inl err \<Rightarrow> Inl (Wrap (NumErr err) ''failed to parse device size'')
             | Inr sectors \<Rightarrow>
                 let bytes = sectors * sectorSizeBytes in
                 (case discoverDeviceType fs sysfsPath of
                    Inl err \<Rightarrow> Inl (Wrap err ''failed to parse device size'')
                  | Inr typ \<Rightarrow> Inr \<lparr>Name = name, Size = bytes, Type = typ\<rparr>)))"

fun NewDevicesFromPaths_loop :: "filesystem \<Rightarrow> Device list \<Rightarrow> string list \<Rightarrow> error + Device list" where
  "NewDevicesFromPaths_loop fs ds [] = Inr ds"
| "NewDevicesFromPaths_loop fs ds (p # paths) =
     (case NewDevice fs p of
        Inl err \<Rightarrow> Inl (Wrap err ''failed to create disk'')
      | Inr d \<Rightarrow> NewDevicesFromPaths_loop fs (ds @ [d]) paths)"

definition NewDevicesFromPaths :: "filesystem \<Rightarrow> string list \<Rightarrow> error + Device list" where
  "NewDevicesFromPaths fs paths = NewDevicesFromPaths_loop fs [] paths"

definition ListDevices :: "filesystem \<Rightarrow> error + Device list" where
  "ListDevices fs =
     (case Open fs sysfsBlockRoot of
        Some err \<Rightarrow> Inl (Wrap (OsErr err) (''failed to open '' @ sysfsBlockRoot))
      | None \<Rightarrow>
          (case Readdirnames fs sysfsBlockRoot of
             Inl err \<Rightarrow> Inl (Wrap (OsErr err) (''failed to read directory '' @ sysfsBlockRoot))
           | Inr diskNames \<Rightarrow> NewDevicesFromPaths fs diskNames))"

section \<open>Package blockdevice\<close>

text \<open>The package declares the same two constants \<open>sysfsBlockRoot\<close> and
  \<open>sectorSizeBytes\<close> as package block. The fields of its structs carry the struct's name
  here, since \<open>Name\<close>, \<open>Size\<close> and \<open>Type\<close> are fields of \<open>Device\<close> already.\<close>

record Disk =
  Disk_Name :: string
  Disk_Size :: uint64

definition NewDisk :: "filesystem \<Rightarrow> string \<Rightarrow> error + Disk" where
  "NewDisk fs diskPath =
     (let name = Base diskPath;
          sysfsName = Join [sysfsBlockRoot, name] in
      if IsNotExist (Stat fs sysfsName)
      then Inl (Errorf (''device '' @ sysfsName @ '' does not exist''))
      else
        let sizeFilePath = Join [sysfsName, ''size''] in
        case ReadFile fs sizeFilePath of
          Inl err \<Rightarrow>
            Inl (Wrap (OsErr err) (''failed to read '' @ os_error_text err @ '' for size''))
        | Inr sizeContent \<Rightarrow>
            let sizeString = Trim sizeContent (CHR 0x0A) in
            (case ParseUint sizeString of
               Inl err \<Rightarrow> Inl (Wrap (NumErr err) ''failed to parse device size'')
             | Inr sectors \<Rightarrow>
                 let bytes = sectors * sectorSizeBytes in
                 Inr \<lparr>Disk_Name = name, Disk_Size = bytes\<rparr>))"

definition DeviceName :: "Disk \<Rightarrow> string" where
  "DeviceName d = ''/dev/'' @ Disk_Name d"

type_synonym DiskSlice = "Disk list"

fun NewDiskSliceFromPaths_loop :: "filesystem \<Rightarrow> DiskSlice \<Rightarrow> string list \<Rightarrow> error + DiskSlice" where
  "NewDiskSliceFromPaths_loop fs ds [] = Inr ds"
| "NewDiskSliceFromPaths_loop fs ds (p # paths) =
     (case NewDisk fs p of
        Inl err \<Rightarrow> Inl (Wrap err ''failed to create disk'')
      | Inr d \<Rightarrow> NewDiskSliceFromPaths_loop fs (ds @ [d]) paths)"

definition NewDiskSliceFromPaths :: "filesystem \<Rightarrow> string list \<Rightarrow> error + DiskSlice" where
  "NewDiskSliceFromPaths fs paths = NewDiskSliceFromPaths_loop fs [] paths"

definition NewDiskSlice :: "filesystem \<Rightarrow> error + DiskSlice" where
  "NewDiskSlice fs =
     (case Open fs sysfsBlockRoot of
        Some err \<Rightarrow> Inl (Wrap (OsErr err) (''failed to open '' @ sysfsBlockRoot))
      | None \<Rightarrow>
          (case Readdirnames fs sysfsBlockRoot of
             Inl err \<Rightarrow> Inl (Wrap (OsErr err) (''failed to read directory '' @ sysfsBlockRoot))
           | Inr diskNames \<Rightarrow> NewDiskSliceFromPaths fs diskNames))"

definition StringSlice :: "DiskSlice \<Rightarrow> string list" where
  "StringSlice ds = foldl (\<lambda>ss d. ss @ [DeviceName d]) [] ds"

definition String :: "DiskSlice \<Rightarrow> string" where
  "String ds = JoinStrings (StringSlice ds) '' ''"

subsection \<open>Attributes reported by blkid\<close>

record Attributes =
  Attributes_UUID :: string
  Attributes_Type :: string
  Attributes_Label :: string

definition attributeUUIDKey :: string where
  "attributeUUIDKey = ''UUID''"

definition attributeTypeKey :: string where
  "attributeTypeKey = ''TYPE''"

definition attributeLabelKey :: string where
  "attributeLabelKey = ''LABEL''"

text \<open>Reading a slice at an index outside it is a run-time panic in Go, which ends the
  program: \<open>IndexOutOfRange i n\<close> is the panic for index \<open>i\<close> of a slice of length
  \<open>n\<close>.\<close>

datatype panic = IndexOutOfRange nat nat

definition index :: "'a list \<Rightarrow> nat \<Rightarrow> panic + 'a" where
  "index xs i = (if i < length xs then Inr (xs ! i) else Inl (IndexOutOfRange i (length xs)))"

text \<open>The loop of \<^verbatim>\<open>GetAttributes\<close> over the lines of the output; \<open>attrs\<close> starts
  as the zero value of the struct, each field the empty string.\<close>

definition setAttribute :: "Attributes \<Rightarrow> string \<Rightarrow> string \<Rightarrow> Attributes" where
  "setAttribute attrs key val =
     (if key = attributeUUIDKey then attrs\<lparr>Attributes_UUID := val\<rparr>
      else if key = attributeLabelKey then attrs\<lparr>Attributes_Label := val\<rparr>
      else if key = attributeTypeKey then attrs\<lparr>Attributes_Type := val\<rparr>
      else attrs)"

fun parseLines :: "Attributes \<Rightarrow> string list \<Rightarrow> panic + Attributes" where
  "parseLines attrs [] = Inr attrs"
| "parseLines attrs (line # lines) =
     (if line = [] then parseLines attrs lines
      else
        let kv = SplitN2 line (CHR ''='') in
        case index kv 0 of
          Inl p \<Rightarrow> Inl p
        | Inr key \<Rightarrow>
            (case index kv 1 of
               Inl p \<Rightarrow> Inl p
             | Inr val \<Rightarrow> parseLines (setAttribute attrs key val) lines))"

definition zeroAttributes :: Attributes where
  "zeroAttributes = \<lparr>Attributes_UUID = [], Attributes_Type = [], Attributes_Label = []\<rparr>"

text \<open>\<open>run\<close> is the host's answer to \<^verbatim>\<open>exec.Command(name, args...).Output()\<close>: the
  standard output, or the error of a command that did not start or did not exit with
  status 0. The result of \<open>GetAttributes\<close> is a panic, an error or the record.\<close>

definition GetAttributes :: "(string \<Rightarrow> string list \<Rightarrow> error + string) \<Rightarrow> Disk \<Rightarrow> panic + (error + Attributes)" where
  "GetAttributes run bd =
     (case run ''blkid'' [''-o'', ''export'', DeviceName bd] of
        Inl err \<Rightarrow> Inr (Inl (Wrap err ''failed to exec blkid''))
      | Inr output \<Rightarrow>
          let lines = Split output (CHR 0x0A) in
          (case parseLines zeroAttributes lines of
             Inl p \<Rightarrow> Inl p
           | Inr attrs \<Rightarrow> Inr (Inr attrs)))"

text \<open>The methods of \<^verbatim>\<open>sort.Interface\<close>. An index outside the slice is a panic.\<close>

definition Len :: "DiskSlice \<Rightarrow> nat" where
  "Len ds = length ds"

definition Less :: "DiskSlice \<Rightarrow> nat \<Rightarrow> nat \<Rightarrow> panic + bool" where
  "Less ds i j =
     (case index ds i of
        Inl p \<Rightarrow> Inl p
      | Inr di \<Rightarrow>
          (case index ds j of
             Inl p \<Rightarrow> Inl p
           | Inr dj \<Rightarrow> Inr (Disk_Size di < Disk_Size dj)))"

definition Swap :: "DiskSlice \<Rightarrow> nat \<Rightarrow> nat \<Rightarrow> panic + DiskSlice" where
  "Swap ds i j =
     (case index ds i of
        Inl p \<Rightarrow> Inl p
      | Inr di \<Rightarrow>
          (case index ds j of
             Inl p \<Rightarrow> Inl p
           | Inr dj \<Rightarrow> Inr (ds[i := dj, j := di])))"

subsection \<open>The size ordering of a collection\<close>

text \<open>Modelled from the spec: the call that sorts a \<open>DiskSlice\<close> is missing. The
  repository implements \<^verbatim>\<open>sort.Interface\<close> (\<open>Len\<close>, \<open>Less\<close>, \<open>Swap\<close>) and never calls
  a sorting routine; the specification asks for an ascending ordering by size made by a
  stable sort. The ordering view is modelled as the insertion sort of Go's package sort,
  \<^verbatim>\<open>insertionSort(data, 0, data.Len())\<close>, which \<^verbatim>\<open>sort.Stable\<close> runs on a slice of up
  to 20 elements, driven by the methods of the source:
  \<^verbatim>\<open>
  for i := a + 1; i < b; i++ {
      for j := i; j > a && data.Less(j, j-1); j-- {
          data.Swap(j, j-1)
      }
  }
  \<close>
  \<open>sink ds j\<close> is the inner loop from \<open>j\<close> down, with \<open>a = 0\<close>.\<close>

fun sink :: "DiskSlice \<Rightarrow> nat \<Rightarrow> panic + DiskSlice" where
  "sink ds 0 = Inr ds"
| "sink ds (Suc j) =
     (case Less ds (Suc j) j of
        Inl p \<Rightarrow> Inl p
      | Inr isLess \<Rightarrow>
          if isLess then
            (case Swap ds (Suc j) j of
               Inl p \<Rightarrow> Inl p
             | Inr swapped \<Rightarrow> sink swapped j)
          else Inr ds)"

fun insertionSort_loop :: "DiskSlice \<Rightarrow> nat list \<Rightarrow> panic + DiskSlice" where
  "insertionSort_loop ds [] = Inr ds"
| "insertionSort_loop ds (i # rest) =
     (case sink ds i of
        Inl p \<Rightarrow> Inl p
      | Inr ds' \<Rightarrow> insertionSort_loop ds' rest)"

definition insertionSort :: "DiskSlice \<Rightarrow> nat \<Rightarrow> panic + DiskSlice" where
  "insertionSort ds b = insertionSort_loop ds [1..<b]"

definition SizeOrdering :: "DiskSlice \<Rightarrow> panic + DiskSlice" where
  "SizeOrdering ds = insertionSort ds (Len ds)"

text \<open>What the loops compute, on lists: \<open>insertLast x xs\<close> puts \<open>x\<close> behind the last
  element of \<open>xs\<close> that is not larger than \<open>x\<close>.\<close>

definition insertLast :: "Disk \<Rightarrow> DiskSlice \<Rightarrow> DiskSlice" where
  "insertLast x xs =
     rev (dropWhile (\<lambda>y. Disk_Size x < Disk_Size y) (rev xs)) @
     x # rev (takeWhile (\<lambda>y. Disk_Size x < Disk_Size y) (rev xs))"

fun insertAll :: "DiskSlice \<Rightarrow> DiskSlice \<Rightarrow> DiskSlice" where
  "insertAll front [] = front"
| "insertAll front (x # rest) = insertAll (insertLast x front) rest"

subsection \<open>What an output reports for a key\<close>

text \<open>The key and the value of a \<open>KEY=VALUE\<close> line: the text before and after the first
  \<open>=\<close>.\<close>

definition keyOf :: "string \<Rightarrow> string" where
  "keyOf line = takeWhile (\<lambda>c. c \<noteq> CHR ''='') line"

definition valueOf :: "string \<Rightarrow> string" where
  "valueOf line = tl (dropWhile (\<lambda>c. c \<noteq> CHR ''='') line)"

text \<open>The specification's reading of an output, to compare \<open>GetAttributes\<close> with: a key
  is reported with the value of its last non-empty line, and a key that no line carries
  is not reported (\<open>None\<close>, the unset field), which differs from a key reported with the
  empty value (\<open>Some []\<close>).\<close>

definition reportedValue :: "string \<Rightarrow> string list \<Rightarrow> string option" where
  "reportedValue key lines =
     (let matching = filter (\<lambda>line. line \<noteq> [] \<and> keyOf line = key) lines
      in if matching = [] then None else Some (valueOf (last matching)))"

text \<open>One round of the loop on a line with a separator, the three recognized keys, and
  the field of the record that a recognized key stands for.\<close>

definition readLine :: "Attributes \<Rightarrow> string \<Rightarrow> Attributes" where
  "readLine attrs line = (if line = [] then attrs else setAttribute attrs (keyOf line) (valueOf line))"

definition recognized :: "string \<Rightarrow> bool" where
  "recognized key = (key = attributeUUIDKey \<or> key = attributeLabelKey \<or> key = attributeTypeKey)"

definition fieldOf :: "string \<Rightarrow> Attributes \<Rightarrow> string" where
  "fieldOf key attrs =
     (if key = attributeUUIDKey then Attributes_UUID attrs
      else if key = attributeLabelKey then Attributes_Label attrs
      else if key = attributeTypeKey then Attributes_Type attrs
      else [])"

section \<open>An example host\<close>

text \<open>\<open>host dirs files denied names\<close> is a host on which the paths of \<open>dirs\<close> exist, the
  files of \<open>files\<close> exist with their contents, every access to a path of \<open>denied\<close> fails
  with \<open>EACCES\<close>, every other path does not exist, and listing the sysfs root gives
  \<open>names\<close>.\<close>

definition host :: "string list \<Rightarrow> (string \<times> string) list \<Rightarrow> string list \<Rightarrow> string list \<Rightarrow> filesystem" where
  "host dirs files denied names =
     \<lparr>Stat = (\<lambda>p. if p \<in> set denied then Some (PathError ''stat'' p EACCES)
                 else if p \<in> set dirs \<or> p \<in> set (map fst files) then None
                 else Some (PathError ''stat'' p ENOENT)),
      ReadFile = (\<lambda>p. if p \<in> set denied then Inl (PathError ''open'' p EACCES)
                 else case map_of files p of
                        Some content \<Rightarrow> Inr content
                      | None \<Rightarrow> Inl (PathError ''open'' p ENOENT)),
      Open = (\<lambda>p. if p \<in> set denied then Some (PathError ''open'' p EACCES)
                 else if p \<in> set dirs then None
                 else Some (PathError ''open'' p ENOENT)),
      Readdirnames = (\<lambda>p. if p = sysfsBlockRoot then Inr names
                 else Inl (PathError ''readdirent'' p ENOTDIR))\<rparr>"

text \<open>A disk \<open>sda\<close>, a RAID array \<open>md0\<close> of size 0 that also has a \<open>device\<close> marker, a
  device-mapper volume \<open>dm-0\<close>, a loop device without markers, a device \<open>big\<close> of
  \<open>2^55\<close> sectors, and a device \<open>sdb\<close> whose \<open>dm\<close> marker cannot be examined.\<close>

definition example_host :: filesystem where
  "example_host =
     host
       [''/sys/block'',
        ''/sys/block/sda'', ''/sys/block/sda/device'',
        ''/sys/block/md0'', ''/sys/block/md0/md'', ''/sys/block/md0/device'',
        ''/sys/block/dm-0'', ''/sys/block/dm-0/dm'',
        ''/sys/block/loop0'',
        ''/sys/block/big'', ''/sys/block/big/device'',
        ''/sys/block/sdb'', ''/sys/block/sdb/device'']
       [(''/sys/block/sda/size'', ''1000215216\<newline>''),
        (''/sys/block/md0/size'', ''0\<newline>''),
        (''/sys/block/dm-0/size'', ''2048\<newline>''),
        (''/sys/block/loop0/size'', ''8\<newline>''),
        (''/sys/block/big/size'', ''36028797018963968\<newline>''),
        (''/sys/block/sdb/size'', ''4096\<newline>'')]
       [''/sys/block/sdb/dm'']
       [''sda'', ''md0'', ''dm-0'', ''loop0'']"

text \<open>A disk to look up, and a blkid that exits with status 0 after printing
  \<open>output\<close>.\<close>

definition example_disk :: Disk where
  "example_disk = \<lparr>Disk_Name = ''sda'', Disk_Size = 512110190592\<rparr>"

definition blkid_prints :: "string \<Rightarrow> string \<Rightarrow> string list \<Rightarrow> error + string" where
  "blkid_prints output name args = Inr output"

text \<open>Four disks of sizes 100, 50, 100 and 10.\<close>

definition example_slice :: DiskSlice where
  "example_slice =
     [\<lparr>Disk_Name = ''sda'', Disk_Size = 100\<rparr>, \<lparr>Disk_Name = ''sdb'', Disk_Size = 50\<rparr>,
      \<lparr>Disk_Name = ''sdc'', Disk_Size = 100\<rparr>, \<lparr>Disk_Name = ''sdd'', Disk_Size = 10\<rparr>]"

section \<open>Evaluating the example host\<close>

lemma example_bases:
  "Base ''/dev/sda'' = ''sda''" "Base ''sda'' = ''sda''" "Base ''md0'' = ''md0''"
  "Base ''dm-0'' = ''dm-0''" "Base ''loop0'' = ''loop0''" "Base ''big'' = ''big''"
  "Base ''sdb'' = ''sdb''" "Base ''sdz'' = ''sdz''"
  by (simp_all add: Base_def)

lemma example_paths:
  "Join [sysfsBlockRoot, ''sda''] = ''/sys/block/sda''"
  "Join [sysfsBlockRoot, ''md0''] = ''/sys/block/md0''"
  "Join [sysfsBlockRoot, ''dm-0''] = ''/sys/block/dm-0''"
  "Join [sysfsBlockRoot, ''loop0''] = ''/sys/block/loop0''"
  "Join [sysfsBlockRoot, ''big''] = ''/sys/block/big''"
  "Join [sysfsBlockRoot, ''sdb''] = ''/sys/block/sdb''"
  "Join [sysfsBlockRoot, ''sdz''] = ''/sys/block/sdz''"
  by (simp_all add: Join_def Clean_def sysfsBlockRoot_def)

lemma example_markers:
  "Join [''/sys/block/sda'', ''size''] = ''/sys/block/sda/size''"
  "Join [''/sys/block/sda'', ''md''] = ''/sys/block/sda/md''"
  "Join [''/sys/block/sda'', ''dm''] = ''/sys/block/sda/dm''"
  "Join [''/sys/block/sda'', ''device''] = ''/sys/block/sda/device''"
  "Join [''/sys/block/md0'', ''size''] = ''/sys/block/md0/size''"
  "Join [''/sys/block/md0'', ''md''] = ''/sys/block/md0/md''"
  "Join [''/sys/block/md0'', ''dm''] = ''/sys/block/md0/dm''"
  "Join [''/sys/block/md0'', ''device''] = ''/sys/block/md0/device''"
  "Join [''/sys/block/dm-0'', ''size''] = ''/sys/block/dm-0/size''"
  "Join [''/sys/block/dm-0'', ''md''] = ''/sys/block/dm-0/md''"
  "Join [''/sys/block/dm-0'', ''dm''] = ''/sys/block/dm-0/dm''"
  "Join [''/sys/block/dm-0'', ''device''] = ''/sys/block/dm-0/device''"
  "Join [''/sys/block/loop0'', ''size''] = ''/sys/block/loop0/size''"
  "Join [''/sys/block/loop0'', ''md''] = ''/sys/block/loop0/md''"
  "Join [''/sys/block/loop0'', ''dm''] = ''/sys/block/loop0/dm''"
  "Join [''/sys/block/loop0'', ''device''] = ''/sys/block/loop0/device''"
  "Join [''/sys/block/big'', ''size''] = ''/sys/block/big/size''"
  "Join [''/sys/block/big'', ''md''] = ''/sys/block/big/md''"
  "Join [''/sys/block/big'', ''dm''] = ''/sys/block/big/dm''"
  "Join [''/sys/block/big'', ''device''] = ''/sys/block/big/device''"
  "Join [''/sys/block/sdb'', ''size''] = ''/sys/block/sdb/size''"
  "Join [''/sys/block/sdb'', ''md''] = ''/sys/block/sdb/md''"
  "Join [''/sys/block/sdb'', ''dm''] = ''/sys/block/sdb/dm''"
  "Join [''/sys/block/sdb'', ''device''] = ''/sys/block/sdb/device''"
  by (simp_all add: Join_def Clean_def)

lemma example_entries:
  "Stat example_host ''/sys/block/sda'' = None"
  "Stat example_host ''/sys/block/md0'' = None"
  "Stat example_host ''/sys/block/dm-0'' = None"
  "Stat example_host ''/sys/block/loop0'' = None"
  "Stat example_host ''/sys/block/big'' = None"
  "Stat example_host ''/sys/block/sdb'' = None"
  "Stat example_host ''/sys/block/sdz'' = Some (PathError ''stat'' ''/sys/block/sdz'' ENOENT)"
  by (simp_all add: example_host_def host_def)

lemma example_stats:
  "Stat example_host ''/sys/block/sda/md'' = Some (PathError ''stat'' ''/sys/block/sda/md'' ENOENT)"
  "Stat example_host ''/sys/block/sda/dm'' = Some (PathError ''stat'' ''/sys/block/sda/dm'' ENOENT)"
  "Stat example_host ''/sys/block/sda/device'' = None"
  "Stat example_host ''/sys/block/md0/md'' = None"
  "Stat example_host ''/sys/block/md0/device'' = None"
  "Stat example_host ''/sys/block/dm-0/md'' = Some (PathError ''stat'' ''/sys/block/dm-0/md'' ENOENT)"
  "Stat example_host ''/sys/block/dm-0/dm'' = None"
  "Stat example_host ''/sys/block/loop0/md'' = Some (PathError ''stat'' ''/sys/block/loop0/md'' ENOENT)"
  "Stat example_host ''/sys/block/loop0/dm'' = Some (PathError ''stat'' ''/sys/block/loop0/dm'' ENOENT)"
  "Stat example_host ''/sys/block/loop0/device'' =
     Some (PathError ''stat'' ''/sys/block/loop0/device'' ENOENT)"
  "Stat example_host ''/sys/block/big/md'' = Some (PathError ''stat'' ''/sys/block/big/md'' ENOENT)"
  "Stat example_host ''/sys/block/big/dm'' = Some (PathError ''stat'' ''/sys/block/big/dm'' ENOENT)"
  "Stat example_host ''/sys/block/big/device'' = None"
  "Stat example_host ''/sys/block/sdb/md'' = Some (PathError ''stat'' ''/sys/block/sdb/md'' ENOENT)"
  "Stat example_host ''/sys/block/sdb/dm'' = Some (PathError ''stat'' ''/sys/block/sdb/dm'' EACCES)"
  by (simp_all add: example_host_def host_def)

lemma example_contents:
  "ReadFile example_host ''/sys/block/sda/size'' = Inr ''1000215216\<newline>''"
  "ReadFile example_host ''/sys/block/md0/size'' = Inr ''0\<newline>''"
  "ReadFile example_host ''/sys/block/dm-0/size'' = Inr ''2048\<newline>''"
  "ReadFile example_host ''/sys/block/loop0/size'' = Inr ''8\<newline>''"
  "ReadFile example_host ''/sys/block/big/size'' = Inr ''36028797018963968\<newline>''"
  "ReadFile example_host ''/sys/block/sdb/size'' = Inr ''4096\<newline>''"
  by (simp_all add: example_host_def host_def)

lemma example_sizes:
  "ParseUint (Trim ''1000215216\<newline>'' (CHR 0x0A)) = Inr 1000215216"
  "ParseUint (Trim ''0\<newline>'' (CHR 0x0A)) = Inr 0"
  "ParseUint (Trim ''2048\<newline>'' (CHR 0x0A)) = Inr 2048"
  "ParseUint (Trim ''8\<newline>'' (CHR 0x0A)) = Inr 8"
  "ParseUint (Trim ''4096\<newline>'' (CHR 0x0A)) = Inr 4096"
  "ParseUint (Trim ''36028797018963968\<newline>'' (CHR 0x0A)) = Inr 36028797018963968"
  by (simp_all add: Trim_def ParseUint_def isDigit_def maxUint64_def
      word_le_nat_alt word_less_nat_alt)

lemmas example_simps =
  example_bases example_paths example_markers example_entries example_stats
  example_contents example_sizes

section \<open>Properties\<close>

subsection \<open>Existence checks and classification\<close>

lemma exists_present: "Stat fs p = None \<Longrightarrow> exists fs p = (True, None)"
  by (simp add: exists_def)

lemma exists_absent: "IsNotExist (Stat fs p) \<Longrightarrow> exists fs p = (False, None)"
  by (cases "Stat fs p") (auto simp: exists_def Let_def)

lemma exists_error:
  "Stat fs p = Some e \<Longrightarrow> Err e \<noteq> ENOENT \<Longrightarrow> exists fs p = (True, Some e)"
  by (simp add: exists_def)

lemma discoverDeviceType_Inr:
  assumes "discoverDeviceType fs sp = Inr t"
  shows "t =
    (if Stat fs (Join [sp, ''md'']) = None then TypeRAID
     else if Stat fs (Join [sp, ''dm'']) = None then TypeDeviceMapper
     else if Stat fs (Join [sp, ''device'']) = None then TypeDisk
     else TypeUnknown)"
  using assms
  by (auto simp: discoverDeviceType_def exists_def Let_def split: if_splits)

lemma NewDevice_Type:
  assumes "NewDevice fs p = Inr d"
  shows "discoverDeviceType fs (Join [sysfsBlockRoot, Base p]) = Inr (Type d)"
  using assms
  by (auto simp: NewDevice_def Let_def split: if_splits sum.splits)

text \<open>
  Claim C1. Classification takes the first rule that matches. Under the sysfs entry \<open>p\<close>
  of a device: if the \<open>md\<close> marker exists the category is RAID, whatever the other
  markers are (so also when a \<open>device\<close> marker exists); if \<open>md\<close> does not exist and
  \<open>dm\<close> exists it is DeviceMapper; if neither exists and \<open>device\<close> exists it is Disk; if
  none of the three exists it is Unknown. A marker exists when its stat succeeds and does
  not exist when its stat reports not-exist; in each of the four cases classification
  returns a category and no error. Every Device that \<open>NewDevice\<close> returns carries the
  category chosen in this order.
\<close>

theorem discoverDeviceType_first_match:
  "(Stat fs (Join [p, ''md'']) = None \<longrightarrow> discoverDeviceType fs p = Inr TypeRAID) \<and>
   (IsNotExist (Stat fs (Join [p, ''md''])) \<and> Stat fs (Join [p, ''dm'']) = None
      \<longrightarrow> discoverDeviceType fs p = Inr TypeDeviceMapper) \<and>
   (IsNotExist (Stat fs (Join [p, ''md''])) \<and> IsNotExist (Stat fs (Join [p, ''dm''])) \<and>
    Stat fs (Join [p, ''device'']) = None
      \<longrightarrow> discoverDeviceType fs p = Inr TypeDisk) \<and>
   (IsNotExist (Stat fs (Join [p, ''md''])) \<and> IsNotExist (Stat fs (Join [p, ''dm''])) \<and>
    IsNotExist (Stat fs (Join [p, ''device'']))
      \<longrightarrow> discoverDeviceType fs p = Inr TypeUnknown) \<and>
   (\<forall>d. NewDevice fs devicePath = Inr d \<and> p = Join [sysfsBlockRoot, Base devicePath] \<longrightarrow>
      Type d =
        (if Stat fs (Join [p, ''md'']) = None then TypeRAID
         else if Stat fs (Join [p, ''dm'']) = None then TypeDeviceMapper
         else if Stat fs (Join [p, ''device'']) = None then TypeDisk
         else TypeUnknown))"
proof (intro conjI allI impI)
  fix d
  assume "NewDevice fs devicePath = Inr d \<and> p = Join [sysfsBlockRoot, Base devicePath]"
  then have "discoverDeviceType fs p = Inr (Type d)"
    by (simp add: NewDevice_Type)
  then show "Type d =
        (if Stat fs (Join [p, ''md'']) = None then TypeRAID
         else if Stat fs (Join [p, ''dm'']) = None then TypeDeviceMapper
         else if Stat fs (Join [p, ''device'']) = None then TypeDisk
         else TypeUnknown)"
    by (rule discoverDeviceType_Inr)
qed (simp_all add: discoverDeviceType_def exists_present exists_absent)

subsection \<open>Constructing a device\<close>

lemma NewDevice_reads:
  assumes "\<not> IsNotExist (Stat fs (Join [sysfsBlockRoot, Base p]))"
    and "ReadFile fs (Join [Join [sysfsBlockRoot, Base p], ''size'']) = Inr content"
    and "ParseUint (Trim content (CHR 0x0A)) = Inr s"
  shows "NewDevice fs p =
    (case discoverDeviceType fs (Join [sysfsBlockRoot, Base p]) of
       Inl err \<Rightarrow> Inl (Wrap err ''failed to parse device size'')
     | Inr typ \<Rightarrow> Inr \<lparr>Name = Base p, Size = s * sectorSizeBytes, Type = typ\<rparr>)"
  using assms by (simp add: NewDevice_def Let_def)

lemma NewDisk_reads:
  assumes "\<not> IsNotExist (Stat fs (Join [sysfsBlockRoot, Base p]))"
    and "ReadFile fs (Join [Join [sysfsBlockRoot, Base p], ''size'']) = Inr content"
    and "ParseUint (Trim content (CHR 0x0A)) = Inr s"
  shows "NewDisk fs p = Inr \<lparr>Disk_Name = Base p, Disk_Size = s * sectorSizeBytes\<rparr>"
  using assms by (simp add: NewDisk_def Let_def)

lemma NewDevice_absent:
  "IsNotExist (Stat fs (Join [sysfsBlockRoot, Base p])) \<Longrightarrow>
   NewDevice fs p =
     Inl (Errorf (''device '' @ Join [sysfsBlockRoot, Base p] @ '' does not exist''))"
  by (simp add: NewDevice_def Let_def)

lemma NewDisk_absent:
  "IsNotExist (Stat fs (Join [sysfsBlockRoot, Base p])) \<Longrightarrow>
   NewDisk fs p =
     Inl (Errorf (''device '' @ Join [sysfsBlockRoot, Base p] @ '' does not exist''))"
  by (simp add: NewDisk_def Let_def)

lemma NewDevice_Base: "Base p = Base q \<Longrightarrow> NewDevice fs p = NewDevice fs q"
  by (simp add: NewDevice_def)

lemma NewDisk_Base: "Base p = Base q \<Longrightarrow> NewDisk fs p = NewDisk fs q"
  by (simp add: NewDisk_def)

lemma NewDevice_Name: "NewDevice fs p = Inr d \<Longrightarrow> Name d = Base p"
  by (auto simp: NewDevice_def Let_def split: if_splits sum.splits)

lemma NewDisk_Name: "NewDisk fs p = Inr k \<Longrightarrow> Disk_Name k = Base p"
  by (auto simp: NewDisk_def Let_def split: if_splits sum.splits)

lemma example_devices:
  "NewDevice example_host ''sda'' = Inr \<lparr>Name = ''sda'', Size = 512110190592, Type = TypeDisk\<rparr>"
  "NewDevice example_host ''md0'' = Inr \<lparr>Name = ''md0'', Size = 0, Type = TypeRAID\<rparr>"
  "NewDevice example_host ''dm-0'' =
     Inr \<lparr>Name = ''dm-0'', Size = 1048576, Type = TypeDeviceMapper\<rparr>"
  "NewDevice example_host ''loop0'' = Inr \<lparr>Name = ''loop0'', Size = 4096, Type = TypeUnknown\<rparr>"
  using NewDevice_reads [of example_host "''sda''" "''1000215216\<newline>''" 1000215216]
    NewDevice_reads [of example_host "''md0''" "''0\<newline>''" 0]
    NewDevice_reads [of example_host "''dm-0''" "''2048\<newline>''" 2048]
    NewDevice_reads [of example_host "''loop0''" "''8\<newline>''" 8]
  by (simp_all add: example_simps sectorSizeBytes_def discoverDeviceType_def exists_def)

lemma example_disks:
  "NewDisk example_host ''sda'' = Inr \<lparr>Disk_Name = ''sda'', Disk_Size = 512110190592\<rparr>"
  "NewDisk example_host ''md0'' = Inr \<lparr>Disk_Name = ''md0'', Disk_Size = 0\<rparr>"
  "NewDisk example_host ''dm-0'' = Inr \<lparr>Disk_Name = ''dm-0'', Disk_Size = 1048576\<rparr>"
  "NewDisk example_host ''loop0'' = Inr \<lparr>Disk_Name = ''loop0'', Disk_Size = 4096\<rparr>"
  using NewDisk_reads [of example_host "''sda''" "''1000215216\<newline>''" 1000215216]
    NewDisk_reads [of example_host "''md0''" "''0\<newline>''" 0]
    NewDisk_reads [of example_host "''dm-0''" "''2048\<newline>''" 2048]
    NewDisk_reads [of example_host "''loop0''" "''8\<newline>''" 8]
  by (simp_all add: example_simps sectorSizeBytes_def)

theorem discoverDeviceType_first_match_witness:
  "Stat example_host (Join [''/sys/block/md0'', ''md'']) = None \<and>
   Stat example_host (Join [''/sys/block/md0'', ''device'']) = None \<and>
   discoverDeviceType example_host ''/sys/block/md0'' = Inr TypeRAID \<and>
   IsNotExist (Stat example_host (Join [''/sys/block/dm-0'', ''md''])) \<and>
   Stat example_host (Join [''/sys/block/dm-0'', ''dm'']) = None \<and>
   discoverDeviceType example_host ''/sys/block/dm-0'' = Inr TypeDeviceMapper \<and>
   IsNotExist (Stat example_host (Join [''/sys/block/sda'', ''md''])) \<and>
   IsNotExist (Stat example_host (Join [''/sys/block/sda'', ''dm''])) \<and>
   Stat example_host (Join [''/sys/block/sda'', ''device'']) = None \<and>
   discoverDeviceType example_host ''/sys/block/sda'' = Inr TypeDisk \<and>
   IsNotExist (Stat example_host (Join [''/sys/block/loop0'', ''md''])) \<and>
   IsNotExist (Stat example_host (Join [''/sys/block/loop0'', ''dm''])) \<and>
   IsNotExist (Stat example_host (Join [''/sys/block/loop0'', ''device''])) \<and>
   discoverDeviceType example_host ''/sys/block/loop0'' = Inr TypeUnknown \<and>
   NewDevice example_host ''md0'' = Inr \<lparr>Name = ''md0'', Size = 0, Type = TypeRAID\<rparr> \<and>
   ''/sys/block/md0'' = Join [sysfsBlockRoot, Base ''md0''] \<and>
   Type \<lparr>Name = ''md0'', Size = 0, Type = TypeRAID\<rparr> = TypeRAID"
  using discoverDeviceType_first_match [of example_host "''/sys/block/md0''" "''md0''"]
    discoverDeviceType_first_match [of example_host "''/sys/block/dm-0''" "''dm-0''"]
    discoverDeviceType_first_match [of example_host "''/sys/block/sda''" "''sda''"]
    discoverDeviceType_first_match [of example_host "''/sys/block/loop0''" "''loop0''"]
  by (simp add: example_simps example_devices)

subsection \<open>The size of a device\<close>

lemma unat_times_512: "unat (s * 512 :: uint64) = (unat s * 512) mod 2 ^ 64"
  by (simp add: unat_word_ariths)

lemma unat_times_512_exact:
  assumes "unat (s :: uint64) < 2 ^ 55"
  shows "unat (s * 512) = unat s * 512"
proof -
  from assms have "unat s * 512 < 2 ^ 64" by simp
  then show ?thesis by (simp add: unat_times_512)
qed

lemma dvd_unat_times_512: "512 dvd unat (s * 512 :: uint64)"
proof -
  have "(unat s * 512) mod 2 ^ 64 = (unat s * 512) mod (2 ^ 55 * 512)" by simp
  also have "\<dots> = (unat s mod 2 ^ 55) * 512" by (simp only: mult_mod_left)
  finally show ?thesis by (simp add: unat_times_512)
qed

text \<open>
  Claim C2, as stated, fails: the size is a 64-bit unsigned product, so \<open>2^55\<close> sectors
  (a sector count that \<open>ParseUint\<close> accepts) give size 0 and not \<open>2^55 * 512\<close>.
\<close>

theorem NewDevice_size_overflow_counterexample:
  "ReadFile example_host ''/sys/block/big/size'' = Inr ''36028797018963968\<newline>'' \<and>
   ParseUint (Trim ''36028797018963968\<newline>'' (CHR 0x0A)) = Inr 36028797018963968 \<and>
   NewDevice example_host ''big'' = Inr \<lparr>Name = ''big'', Size = 0, Type = TypeDisk\<rparr> \<and>
   NewDisk example_host ''big'' = Inr \<lparr>Disk_Name = ''big'', Disk_Size = 0\<rparr> \<and>
   unat (0 :: uint64) \<noteq> unat (36028797018963968 :: uint64) * 512"
  using NewDevice_reads [of example_host "''big''" "''36028797018963968\<newline>''" 36028797018963968]
    NewDisk_reads [of example_host "''big''" "''36028797018963968\<newline>''" 36028797018963968]
  by (simp add: example_simps sectorSizeBytes_def discoverDeviceType_def exists_def)

text \<open>
  Claim C2, amended. For every sector count \<open>s\<close> that \<open>ParseUint\<close> reads from the size
  file of an existing entry, \<open>NewDisk\<close> returns a disk, and \<open>NewDevice\<close> a device once
  classification succeeds, whose size is the 64-bit product \<open>s * 512\<close>: the number
  \<open>s * 512\<close> reduced modulo \<open>2^64\<close>. It is exactly \<open>s * 512\<close> when \<open>s < 2^55\<close>, it is 0
  for \<open>s = 0\<close>, and it is always a multiple of 512.
\<close>

theorem NewDevice_size_mod_2_64:
  assumes "\<not> IsNotExist (Stat fs (Join [sysfsBlockRoot, Base p]))"
    and "ReadFile fs (Join [Join [sysfsBlockRoot, Base p], ''size'']) = Inr content"
    and "ParseUint (Trim content (CHR 0x0A)) = Inr s"
    and "discoverDeviceType fs (Join [sysfsBlockRoot, Base p]) = Inr t"
  shows "NewDevice fs p = Inr \<lparr>Name = Base p, Size = s * sectorSizeBytes, Type = t\<rparr> \<and>
         NewDisk fs p = Inr \<lparr>Disk_Name = Base p, Disk_Size = s * sectorSizeBytes\<rparr> \<and>
         unat (s * sectorSizeBytes) = (unat s * 512) mod 2 ^ 64 \<and>
         (unat s < 2 ^ 55 \<longrightarrow> unat (s * sectorSizeBytes) = unat s * 512) \<and>
         (s = 0 \<longrightarrow> s * sectorSizeBytes = 0) \<and>
         512 dvd unat (s * sectorSizeBytes)"
proof (intro conjI impI)
  show "NewDevice fs p = Inr \<lparr>Name = Base p, Size = s * sectorSizeBytes, Type = t\<rparr>"
    using assms by (simp add: NewDevice_reads)
  show "NewDisk fs p = Inr \<lparr>Disk_Name = Base p, Disk_Size = s * sectorSizeBytes\<rparr>"
    using assms by (simp add: NewDisk_reads)
  show "unat (s * sectorSizeBytes) = (unat s * 512) mod 2 ^ 64"
    unfolding sectorSizeBytes_def by (rule unat_times_512)
  show "unat (s * sectorSizeBytes) = unat s * 512" if "unat s < 2 ^ 55"
    unfolding sectorSizeBytes_def using that by (rule unat_times_512_exact)
  show "s * sectorSizeBytes = 0" if "s = 0"
    using that by simp
  show "512 dvd unat (s * sectorSizeBytes)"
    unfolding sectorSizeBytes_def by (rule dvd_unat_times_512)
qed

theorem NewDevice_size_mod_2_64_witness:
  "\<not> IsNotExist (Stat example_host (Join [sysfsBlockRoot, Base ''sda''])) \<and>
   ReadFile example_host (Join [Join [sysfsBlockRoot, Base ''sda''], ''size'']) =
     Inr ''1000215216\<newline>'' \<and>
   ParseUint (Trim ''1000215216\<newline>'' (CHR 0x0A)) = Inr 1000215216 \<and>
   discoverDeviceType example_host (Join [sysfsBlockRoot, Base ''sda'']) = Inr TypeDisk \<and>
   NewDevice example_host ''sda'' = Inr \<lparr>Name = ''sda'', Size = 512110190592, Type = TypeDisk\<rparr> \<and>
   NewDisk example_host ''sda'' = Inr \<lparr>Disk_Name = ''sda'', Disk_Size = 512110190592\<rparr> \<and>
   unat (1000215216 :: uint64) < 2 ^ 55 \<and>
   unat (1000215216 * sectorSizeBytes) = unat (1000215216 :: uint64) * 512 \<and>
   NewDevice example_host ''md0'' = Inr \<lparr>Name = ''md0'', Size = 0, Type = TypeRAID\<rparr> \<and>
   512 dvd unat (1000215216 * sectorSizeBytes)"
  using NewDevice_size_mod_2_64 [of example_host "''sda''" "''1000215216\<newline>''" 1000215216 TypeDisk]
    NewDevice_size_mod_2_64 [of example_host "''md0''" "''0\<newline>''" 0 TypeRAID]
  by (simp add: example_simps sectorSizeBytes_def discoverDeviceType_def exists_def)

subsection \<open>Errors of the existence checks\<close>

lemma discoverDeviceType_error:
  assumes "(\<exists>e. Stat fs (Join [sp, ''md'']) = Some e \<and> Err e \<noteq> ENOENT) \<or>
     (IsNotExist (Stat fs (Join [sp, ''md''])) \<and>
        (\<exists>e. Stat fs (Join [sp, ''dm'']) = Some e \<and> Err e \<noteq> ENOENT)) \<or>
     (IsNotExist (Stat fs (Join [sp, ''md''])) \<and> IsNotExist (Stat fs (Join [sp, ''dm''])) \<and>
        (\<exists>e. Stat fs (Join [sp, ''device'']) = Some e \<and> Err e \<noteq> ENOENT))"
  shows "discoverDeviceType fs sp = Inl (Errorf (''failed to discover device type for '' @ sp))"
  using assms
  by (auto simp: discoverDeviceType_def exists_error exists_absent)

lemma NewDevice_size_not_read:
  assumes "\<not> IsNotExist (Stat fs (Join [sysfsBlockRoot, Base p]))"
    and "ReadFile fs (Join [Join [sysfsBlockRoot, Base p], ''size'']) = Inl err"
  shows "NewDevice fs p =
     Inl (Wrap (OsErr err) (''failed to read '' @ os_error_text err @ '' for size''))"
  using assms by (simp add: NewDevice_def Let_def)

lemma NewDevice_size_not_parsed:
  assumes "\<not> IsNotExist (Stat fs (Join [sysfsBlockRoot, Base p]))"
    and "ReadFile fs (Join [Join [sysfsBlockRoot, Base p], ''size'']) = Inr content"
    and "ParseUint (Trim content (CHR 0x0A)) = Inl err"
  shows "NewDevice fs p = Inl (Wrap (NumErr err) ''failed to parse device size'')"
  using assms by (simp add: NewDevice_def Let_def)

text \<open>
  Claim C3 says that a marker stat failing with an error other than not-exist makes the
  construction fail with an I/O error. The construction does fail and the marker is not
  taken as absent: when the stat of \<open>md\<close>, or of \<open>dm\<close> after \<open>md\<close> was found absent, or
  of \<open>device\<close> after both were found absent, fails so, \<open>NewDevice\<close> returns an error and
  no Device. But the error is not an I/O error: \<open>discoverDeviceType\<close> makes a new message
  and drops the stat error, so the cause of the returned error is that message and no
  error of the operating system, and \<open>NewDevice\<close> wraps it as
  \<open>failed to parse device size\<close>, the context of a size that does not parse
  (\<open>NewDevice_size_not_parsed\<close>). The failure to read the size file, beside it, keeps
  its cause (\<open>NewDevice_size_not_read\<close>).
\<close>

theorem marker_stat_error_fails_NewDevice:
  assumes "\<not> IsNotExist (Stat fs (Join [sysfsBlockRoot, Base p]))"
    and "ReadFile fs (Join [Join [sysfsBlockRoot, Base p], ''size'']) = Inr content"
    and "ParseUint (Trim content (CHR 0x0A)) = Inr s"
    and "(\<exists>e. Stat fs (Join [Join [sysfsBlockRoot, Base p], ''md'']) = Some e \<and> Err e \<noteq> ENOENT) \<or>
     (IsNotExist (Stat fs (Join [Join [sysfsBlockRoot, Base p], ''md''])) \<and>
        (\<exists>e. Stat fs (Join [Join [sysfsBlockRoot, Base p], ''dm'']) = Some e \<and> Err e \<noteq> ENOENT)) \<or>
     (IsNotExist (Stat fs (Join [Join [sysfsBlockRoot, Base p], ''md''])) \<and>
      IsNotExist (Stat fs (Join [Join [sysfsBlockRoot, Base p], ''dm''])) \<and>
        (\<exists>e. Stat fs (Join [Join [sysfsBlockRoot, Base p], ''device'']) = Some e \<and> Err e \<noteq> ENOENT))"
  shows "discoverDeviceType fs (Join [sysfsBlockRoot, Base p]) =
           Inl (Errorf (''failed to discover device type for '' @ Join [sysfsBlockRoot, Base p])) \<and>
         NewDevice fs p =
           Inl (Wrap (Errorf (''failed to discover device type for '' @ Join [sysfsBlockRoot, Base p]))
                  ''failed to parse device size'') \<and>
         Cause (projl (NewDevice fs p)) =
           Errorf (''failed to discover device type for '' @ Join [sysfsBlockRoot, Base p]) \<and>
         (\<forall>e. Cause (projl (NewDevice fs p)) \<noteq> OsErr e)"
proof -
  have t: "discoverDeviceType fs (Join [sysfsBlockRoot, Base p]) =
           Inl (Errorf (''failed to discover device type for '' @ Join [sysfsBlockRoot, Base p]))"
    using assms(4) by (rule discoverDeviceType_error)
  moreover have "NewDevice fs p =
           Inl (Wrap (Errorf (''failed to discover device type for '' @ Join [sysfsBlockRoot, Base p]))
                  ''failed to parse device size'')"
    using assms(1-3) t by (simp add: NewDevice_reads)
  ultimately show ?thesis by simp
qed

theorem marker_stat_error_fails_NewDevice_witness:
  "\<not> IsNotExist (Stat example_host (Join [sysfsBlockRoot, Base ''sdb''])) \<and>
   ReadFile example_host (Join [Join [sysfsBlockRoot, Base ''sdb''], ''size'']) = Inr ''4096\<newline>'' \<and>
   ParseUint (Trim ''4096\<newline>'' (CHR 0x0A)) = Inr 4096 \<and>
   IsNotExist (Stat example_host (Join [Join [sysfsBlockRoot, Base ''sdb''], ''md''])) \<and>
   Stat example_host (Join [Join [sysfsBlockRoot, Base ''sdb''], ''dm'']) =
     Some (PathError ''stat'' ''/sys/block/sdb/dm'' EACCES) \<and>
   Err (PathError ''stat'' ''/sys/block/sdb/dm'' EACCES) \<noteq> ENOENT \<and>
   Stat example_host (Join [Join [sysfsBlockRoot, Base ''sdb''], ''device'']) = None \<and>
   NewDevice example_host ''sdb'' =
     Inl (Wrap (Errorf ''failed to discover device type for /sys/block/sdb'')
            ''failed to parse device size'') \<and>
   Cause (projl (NewDevice example_host ''sdb'')) =
     Errorf ''failed to discover device type for /sys/block/sdb''"
  using marker_stat_error_fails_NewDevice [of example_host "''sdb''" "''4096\<newline>''" 4096]
  by (simp add: example_simps example_host_def host_def)

subsection \<open>A name without an entry\<close>

text \<open>
  Claim C6. When the sysfs entry of the base name does not exist (its stat reports
  not-exist), \<open>NewDevice\<close> and \<open>NewDisk\<close> fail with the error
  \<open>device <path> does not exist\<close> and with nothing else: the size file is not read,
  nothing is parsed and no marker is examined.
\<close>

theorem NewDevice_missing_entry:
  assumes "IsNotExist (Stat fs (Join [sysfsBlockRoot, Base p]))"
  shows "NewDevice fs p =
           Inl (Errorf (''device '' @ Join [sysfsBlockRoot, Base p] @ '' does not exist'')) \<and>
         NewDisk fs p =
           Inl (Errorf (''device '' @ Join [sysfsBlockRoot, Base p] @ '' does not exist''))"
  using assms by (simp add: NewDevice_absent NewDisk_absent)

theorem NewDevice_missing_entry_witness:
  "IsNotExist (Stat example_host (Join [sysfsBlockRoot, Base ''sdz''])) \<and>
   NewDevice example_host ''sdz'' = Inl (Errorf ''device /sys/block/sdz does not exist'') \<and>
   NewDisk example_host ''sdz'' = Inl (Errorf ''device /sys/block/sdz does not exist'')"
  using NewDevice_missing_entry [of example_host "''sdz''"]
  by (simp add: example_simps)

subsection \<open>Only the base name counts\<close>

lemma Base_bare:
  assumes "name \<noteq> []" and "CHR ''/'' \<notin> set name"
  shows "Base name = name"
proof -
  have nd: "dropWhile (\<lambda>c. c = CHR ''/'') (rev name) = rev name"
    using assms by (cases "rev name") auto
  have tw: "takeWhile (\<lambda>c. c \<noteq> CHR ''/'') (rev name) = rev name"
    using assms by (auto simp: takeWhile_eq_all_conv)
  show ?thesis
    unfolding Base_def using assms by (simp add: Let_def nd tw)
qed

lemma Base_prefixed:
  assumes "name \<noteq> []" and "CHR ''/'' \<notin> set name"
  shows "Base (dir @ ''/'' @ name) = name"
proof -
  have r: "rev (dir @ ''/'' @ name) = rev name @ CHR ''/'' # rev dir" by simp
  have nd: "dropWhile (\<lambda>c. c = CHR ''/'') (rev name @ CHR ''/'' # rev dir) =
      rev name @ CHR ''/'' # rev dir"
    using assms by (cases "rev name") auto
  have tw: "takeWhile (\<lambda>c. c \<noteq> CHR ''/'') (rev name @ CHR ''/'' # rev dir) = rev name"
  proof -
    have "\<And>x. x \<in> set (rev name) \<Longrightarrow> x \<noteq> CHR ''/''"
      using assms by auto
    then show ?thesis by (subst takeWhile_append2) auto
  qed
  show ?thesis
    unfolding Base_def r using assms by (simp add: Let_def nd tw)
qed

text \<open>
  Claim C8. \<open>NewDevice\<close> and \<open>NewDisk\<close> depend on the final path component only: two
  paths with the same \<open>Base\<close> give the same result. For a bare device name (not empty,
  without a slash) and any directory prefix, \<open>dir/name\<close> and \<open>name\<close> have the base
  \<open>name\<close>, resolve to the same sysfs entry and give the same result, and a Device or Disk
  that is returned carries \<open>name\<close>; so \<open>/dev/sda\<close> and \<open>sda\<close> both give the device
  named \<open>sda\<close>.
\<close>

theorem NewDevice_final_component:
  assumes "name \<noteq> []" and "CHR ''/'' \<notin> set name"
  shows "Base (dir @ ''/'' @ name) = name \<and> Base name = name \<and>
         Join [sysfsBlockRoot, Base (dir @ ''/'' @ name)] = Join [sysfsBlockRoot, Base name] \<and>
         NewDevice fs (dir @ ''/'' @ name) = NewDevice fs name \<and>
         NewDisk fs (dir @ ''/'' @ name) = NewDisk fs name \<and>
         (\<forall>d. NewDevice fs name = Inr d \<longrightarrow> Name d = name) \<and>
         (\<forall>k. NewDisk fs name = Inr k \<longrightarrow> Disk_Name k = name) \<and>
         (\<forall>p q. Base p = Base q \<longrightarrow> NewDevice fs p = NewDevice fs q \<and> NewDisk fs p = NewDisk fs q)"
proof -
  have b: "Base (dir @ ''/'' @ name) = name" "Base name = name"
    using assms by (rule Base_prefixed, rule Base_bare)
  then have e: "Base (dir @ ''/'' @ name) = Base name" by simp
  show ?thesis
  proof (intro conjI allI impI)
    show "NewDevice fs (dir @ ''/'' @ name) = NewDevice fs name"
      using e by (rule NewDevice_Base)
    show "NewDisk fs (dir @ ''/'' @ name) = NewDisk fs name"
      using e by (rule NewDisk_Base)
    show "Name d = name" if "NewDevice fs name = Inr d" for d
      using NewDevice_Name [OF that] b by simp
    show "Disk_Name k = name" if "NewDisk fs name = Inr k" for k
      using NewDisk_Name [OF that] b by simp
    show "NewDevice fs p = NewDevice fs q" if "Base p = Base q" for p q
      using that by (rule NewDevice_Base)
    show "NewDisk fs p = NewDisk fs q" if "Base p = Base q" for p q
      using that by (rule NewDisk_Base)
  qed (use b in simp_all)
qed

theorem NewDevice_final_component_witness:
  "''sda'' \<noteq> [] \<and> CHR ''/'' \<notin> set ''sda'' \<and>
   Base (''/dev'' @ ''/'' @ ''sda'') = ''sda'' \<and> Base ''sda'' = ''sda'' \<and>
   NewDevice example_host ''/dev/sda'' = NewDevice example_host ''sda'' \<and>
   NewDevice example_host ''sda'' = Inr \<lparr>Name = ''sda'', Size = 512110190592, Type = TypeDisk\<rparr> \<and>
   Name \<lparr>Name = ''sda'', Size = 512110190592, Type = TypeDisk\<rparr> = ''sda'' \<and>
   NewDisk example_host ''/dev/sda'' = NewDisk example_host ''sda'' \<and>
   NewDisk example_host ''sda'' = Inr \<lparr>Disk_Name = ''sda'', Disk_Size = 512110190592\<rparr>"
  using NewDevice_final_component [of "''sda''" "''/dev''" example_host]
  by (simp add: example_devices example_disks)

subsection \<open>Discovery from a list of names\<close>

lemma NewDevicesFromPaths_loop_all:
  assumes "\<forall>p \<in> set paths. \<exists>d. NewDevice fs p = Inr d"
  shows "NewDevicesFromPaths_loop fs ds paths =
           Inr (ds @ map (\<lambda>p. projr (NewDevice fs p)) paths)"
  using assms
proof (induction paths arbitrary: ds)
  case Nil
  show ?case by simp
next
  case (Cons p paths)
  from Cons.prems obtain d where d: "NewDevice fs p = Inr d" by auto
  from Cons.prems have "\<forall>q \<in> set paths. \<exists>d. NewDevice fs q = Inr d" by simp
  then have "NewDevicesFromPaths_loop fs (ds @ [d]) paths =
      Inr ((ds @ [d]) @ map (\<lambda>p. projr (NewDevice fs p)) paths)"
    by (rule Cons.IH)
  with d show ?case by simp
qed

lemma NewDevicesFromPaths_loop_first_failure:
  assumes "\<forall>q \<in> set good. \<exists>d. NewDevice fs q = Inr d"
    and "NewDevice fs p = Inl e"
  shows "NewDevicesFromPaths_loop fs ds (good @ p # rest) = Inl (Wrap e ''failed to create disk'')"
  using assms(1)
proof (induction good arbitrary: ds)
  case Nil
  show ?case using assms(2) by simp
next
  case (Cons q good)
  from Cons.prems obtain d where d: "NewDevice fs q = Inr d" by auto
  from Cons.prems have "\<forall>q \<in> set good. \<exists>d. NewDevice fs q = Inr d" by simp
  then have "NewDevicesFromPaths_loop fs (ds @ [d]) (good @ p # rest) =
      Inl (Wrap e ''failed to create disk'')"
    by (rule Cons.IH)
  with d show ?case by simp
qed

lemma NewDevicesFromPaths_loop_some_failure:
  assumes "\<exists>p \<in> set paths. \<exists>e. NewDevice fs p = Inl e"
  shows "\<exists>e. NewDevicesFromPaths_loop fs ds paths = Inl (Wrap e ''failed to create disk'')"
  using assms
proof (induction paths arbitrary: ds)
  case Nil
  then show ?case by simp
next
  case (Cons p paths)
  show ?case
  proof (cases "NewDevice fs p")
    case (Inl e)
    then show ?thesis by simp
  next
    case (Inr d)
    with Cons.prems have "\<exists>q \<in> set paths. \<exists>e. NewDevice fs q = Inl e" by auto
    then have "\<exists>e. NewDevicesFromPaths_loop fs (ds @ [d]) paths =
        Inl (Wrap e ''failed to create disk'')"
      by (rule Cons.IH)
    with Inr show ?thesis by simp
  qed
qed

lemma NewDiskSliceFromPaths_loop_all:
  assumes "\<forall>p \<in> set paths. \<exists>k. NewDisk fs p = Inr k"
  shows "NewDiskSliceFromPaths_loop fs ds paths =
           Inr (ds @ map (\<lambda>p. projr (NewDisk fs p)) paths)"
  using assms
proof (induction paths arbitrary: ds)
  case Nil
  show ?case by simp
next
  case (Cons p paths)
  from Cons.prems obtain k where d: "NewDisk fs p = Inr k" by auto
  from Cons.prems have "\<forall>q \<in> set paths. \<exists>k. NewDisk fs q = Inr k" by simp
  then have "NewDiskSliceFromPaths_loop fs (ds @ [k]) paths =
      Inr ((ds @ [k]) @ map (\<lambda>p. projr (NewDisk fs p)) paths)"
    by (rule Cons.IH)
  with d show ?case by simp
qed

lemma NewDiskSliceFromPaths_loop_first_failure:
  assumes "\<forall>q \<in> set good. \<exists>k. NewDisk fs q = Inr k"
    and "NewDisk fs p = Inl e"
  shows "NewDiskSliceFromPaths_loop fs ds (good @ p # rest) = Inl (Wrap e ''failed to create disk'')"
  using assms(1)
proof (induction good arbitrary: ds)
  case Nil
  show ?case using assms(2) by simp
next
  case (Cons q good)
  from Cons.prems obtain k where d: "NewDisk fs q = Inr k" by auto
  from Cons.prems have "\<forall>q \<in> set good. \<exists>k. NewDisk fs q = Inr k" by simp
  then have "NewDiskSliceFromPaths_loop fs (ds @ [k]) (good @ p # rest) =
      Inl (Wrap e ''failed to create disk'')"
    by (rule Cons.IH)
  with d show ?case by simp
qed

lemma NewDiskSliceFromPaths_loop_some_failure:
  assumes "\<exists>p \<in> set paths. \<exists>e. NewDisk fs p = Inl e"
  shows "\<exists>e. NewDiskSliceFromPaths_loop fs ds paths = Inl (Wrap e ''failed to create disk'')"
  using assms
proof (induction paths arbitrary: ds)
  case Nil
  then show ?case by simp
next
  case (Cons p paths)
  show ?case
  proof (cases "NewDisk fs p")
    case (Inl e)
    then show ?thesis by simp
  next
    case (Inr k)
    with Cons.prems have "\<exists>q \<in> set paths. \<exists>e. NewDisk fs q = Inl e" by auto
    then have "\<exists>e. NewDiskSliceFromPaths_loop fs (ds @ [k]) paths =
        Inl (Wrap e ''failed to create disk'')"
      by (rule Cons.IH)
    with Inr show ?thesis by simp
  qed
qed

lemma example_missing:
  "NewDevice example_host ''sdz'' = Inl (Errorf ''device /sys/block/sdz does not exist'')"
  "NewDisk example_host ''sdz'' = Inl (Errorf ''device /sys/block/sdz does not exist'')"
  using NewDevice_absent [of example_host "''sdz''"] NewDisk_absent [of example_host "''sdz''"]
  by (simp_all add: example_simps)

lemma example_listing:
  "Open example_host sysfsBlockRoot = None"
  "Readdirnames example_host sysfsBlockRoot = Inr [''sda'', ''md0'', ''dm-0'', ''loop0'']"
  by (simp_all add: example_host_def host_def sysfsBlockRoot_def)

text \<open>
  Claim C5. \<open>NewDevicesFromPaths\<close> and \<open>NewDiskSliceFromPaths\<close> return everything or
  nothing. When every name constructs, the result is the list of the constructed values,
  one per name in the order of the names, a repeated name giving a repeated entry. When
  the names before \<open>p\<close> construct and \<open>p\<close> fails with \<open>e\<close>, the result is \<open>e\<close> wrapped
  as \<open>failed to create disk\<close>, whatever follows \<open>p\<close>; so whenever some name fails the
  result is a wrapped error and no collection. \<open>ListDevices\<close> and \<open>NewDiskSlice\<close> are
  the same functions applied to the names listed under the sysfs root.
\<close>

theorem discovery_all_or_nothing:
  "((\<forall>p \<in> set paths. \<exists>d. NewDevice fs p = Inr d) \<longrightarrow>
      NewDevicesFromPaths fs paths = Inr (map (\<lambda>p. projr (NewDevice fs p)) paths)) \<and>
   ((\<forall>q \<in> set good. \<exists>d. NewDevice fs q = Inr d) \<and> NewDevice fs p = Inl e \<longrightarrow>
      NewDevicesFromPaths fs (good @ p # rest) = Inl (Wrap e ''failed to create disk'')) \<and>
   ((\<exists>q \<in> set paths. \<exists>e. NewDevice fs q = Inl e) \<longrightarrow>
      (\<exists>e. NewDevicesFromPaths fs paths = Inl (Wrap e ''failed to create disk''))) \<and>
   ((\<forall>p \<in> set paths. \<exists>k. NewDisk fs p = Inr k) \<longrightarrow>
      NewDiskSliceFromPaths fs paths = Inr (map (\<lambda>p. projr (NewDisk fs p)) paths)) \<and>
   ((\<forall>q \<in> set good. \<exists>k. NewDisk fs q = Inr k) \<and> NewDisk fs p = Inl e \<longrightarrow>
      NewDiskSliceFromPaths fs (good @ p # rest) = Inl (Wrap e ''failed to create disk'')) \<and>
   ((\<exists>q \<in> set paths. \<exists>e. NewDisk fs q = Inl e) \<longrightarrow>
      (\<exists>e. NewDiskSliceFromPaths fs paths = Inl (Wrap e ''failed to create disk''))) \<and>
   (Open fs sysfsBlockRoot = None \<and> Readdirnames fs sysfsBlockRoot = Inr names \<longrightarrow>
      ListDevices fs = NewDevicesFromPaths fs names \<and>
      NewDiskSlice fs = NewDiskSliceFromPaths fs names)"
proof (intro conjI impI)
  show "NewDevicesFromPaths fs paths = Inr (map (\<lambda>p. projr (NewDevice fs p)) paths)"
    if "\<forall>p \<in> set paths. \<exists>d. NewDevice fs p = Inr d"
    using NewDevicesFromPaths_loop_all [OF that, of "[]"]
    by (simp add: NewDevicesFromPaths_def)
  show "NewDevicesFromPaths fs (good @ p # rest) = Inl (Wrap e ''failed to create disk'')"
    if "(\<forall>q \<in> set good. \<exists>d. NewDevice fs q = Inr d) \<and> NewDevice fs p = Inl e"
    using that NewDevicesFromPaths_loop_first_failure [of good fs p e "[]" rest]
    by (simp add: NewDevicesFromPaths_def)
  show "\<exists>e. NewDevicesFromPaths fs paths = Inl (Wrap e ''failed to create disk'')"
    if "\<exists>q \<in> set paths. \<exists>e. NewDevice fs q = Inl e"
    using NewDevicesFromPaths_loop_some_failure [OF that, of "[]"]
    by (simp add: NewDevicesFromPaths_def)
  show "NewDiskSliceFromPaths fs paths = Inr (map (\<lambda>p. projr (NewDisk fs p)) paths)"
    if "\<forall>p \<in> set paths. \<exists>k. NewDisk fs p = Inr k"
    using NewDiskSliceFromPaths_loop_all [OF that, of "[]"]
    by (simp add: NewDiskSliceFromPaths_def)
  show "NewDiskSliceFromPaths fs (good @ p # rest) = Inl (Wrap e ''failed to create disk'')"
    if "(\<forall>q \<in> set good. \<exists>k. NewDisk fs q = Inr k) \<and> NewDisk fs p = Inl e"
    using that NewDiskSliceFromPaths_loop_first_failure [of good fs p e "[]" rest]
    by (simp add: NewDiskSliceFromPaths_def)
  show "\<exists>e. NewDiskSliceFromPaths fs paths = Inl (Wrap e ''failed to create disk'')"
    if "\<exists>q \<in> set paths. \<exists>e. NewDisk fs q = Inl e"
    using NewDiskSliceFromPaths_loop_some_failure [OF that, of "[]"]
    by (simp add: NewDiskSliceFromPaths_def)
  show "ListDevices fs = NewDevicesFromPaths fs names"
    if "Open fs sysfsBlockRoot = None \<and> Readdirnames fs sysfsBlockRoot = Inr names"
    using that by (simp add: ListDevices_def)
  show "NewDiskSlice fs = NewDiskSliceFromPaths fs names"
    if "Open fs sysfsBlockRoot = None \<and> Readdirnames fs sysfsBlockRoot = Inr names"
    using that by (simp add: NewDiskSlice_def)
qed

theorem discovery_all_or_nothing_witness:
  "NewDevicesFromPaths example_host [''sda'', ''md0'', ''sda''] =
     Inr [\<lparr>Name = ''sda'', Size = 512110190592, Type = TypeDisk\<rparr>,
          \<lparr>Name = ''md0'', Size = 0, Type = TypeRAID\<rparr>,
          \<lparr>Name = ''sda'', Size = 512110190592, Type = TypeDisk\<rparr>] \<and>
   NewDevice example_host ''sdz'' = Inl (Errorf ''device /sys/block/sdz does not exist'') \<and>
   NewDevicesFromPaths example_host ([''sda''] @ ''sdz'' # [''md0'']) =
     Inl (Wrap (Errorf ''device /sys/block/sdz does not exist'') ''failed to create disk'') \<and>
   NewDiskSliceFromPaths example_host [''sda'', ''md0'', ''sda''] =
     Inr [\<lparr>Disk_Name = ''sda'', Disk_Size = 512110190592\<rparr>,
          \<lparr>Disk_Name = ''md0'', Disk_Size = 0\<rparr>,
          \<lparr>Disk_Name = ''sda'', Disk_Size = 512110190592\<rparr>] \<and>
   NewDisk example_host ''sdz'' = Inl (Errorf ''device /sys/block/sdz does not exist'') \<and>
   NewDiskSliceFromPaths example_host ([''sda''] @ ''sdz'' # [''md0'']) =
     Inl (Wrap (Errorf ''device /sys/block/sdz does not exist'') ''failed to create disk'') \<and>
   Open example_host sysfsBlockRoot = None \<and>
   Readdirnames example_host sysfsBlockRoot = Inr [''sda'', ''md0'', ''dm-0'', ''loop0''] \<and>
   ListDevices example_host = NewDevicesFromPaths example_host [''sda'', ''md0'', ''dm-0'', ''loop0''] \<and>
   NewDiskSlice example_host = NewDiskSliceFromPaths example_host [''sda'', ''md0'', ''dm-0'', ''loop0'']"
  using discovery_all_or_nothing [of "[''sda'', ''md0'', ''sda'']" example_host
      "[''sda'']" "''sdz''" "Errorf ''device /sys/block/sdz does not exist''" "[''md0'']"
      "[''sda'', ''md0'', ''dm-0'', ''loop0'']"]
  by (simp add: example_devices example_disks example_missing example_listing)

subsection \<open>Attribute lookup\<close>

lemma SplitN2_separator:
  "CHR ''='' \<in> set line \<Longrightarrow> SplitN2 line (CHR ''='') = [keyOf line, valueOf line]"
  by (simp add: SplitN2_def keyOf_def valueOf_def)

lemma SplitN2_no_separator:
  "CHR ''='' \<notin> set line \<Longrightarrow> SplitN2 line (CHR ''='') = [line]"
  by (simp add: SplitN2_def)

lemma parseLines_malformed:
  assumes "\<exists>line \<in> set lines. line \<noteq> [] \<and> CHR ''='' \<notin> set line"
  shows "parseLines attrs lines = Inl (IndexOutOfRange 1 1)"
  using assms
proof (induction lines arbitrary: attrs)
  case Nil
  then show ?case by simp
next
  case (Cons line lines)
  show ?case
  proof (cases "line \<noteq> [] \<and> CHR ''='' \<notin> set line")
    case True
    then show ?thesis by (simp add: SplitN2_no_separator index_def)
  next
    case False
    with Cons.prems have rest: "\<exists>l \<in> set lines. l \<noteq> [] \<and> CHR ''='' \<notin> set l" by auto
    show ?thesis
    proof (cases "line = []")
      case True
      then show ?thesis using Cons.IH [OF rest] by simp
    next
      case False
      with \<open>\<not> (line \<noteq> [] \<and> CHR ''='' \<notin> set line)\<close> have "CHR ''='' \<in> set line" by simp
      then show ?thesis using False Cons.IH [OF rest]
        by (simp add: SplitN2_separator index_def)
    qed
  qed
qed

lemma readLine_empty: "readLine attrs [] = attrs"
  by (simp add: readLine_def)

lemma readLine_line:
  "line \<noteq> [] \<Longrightarrow> readLine attrs line = setAttribute attrs (keyOf line) (valueOf line)"
  by (simp add: readLine_def)

lemma parseLines_well_formed:
  assumes "\<forall>line \<in> set lines. line \<noteq> [] \<longrightarrow> CHR ''='' \<in> set line"
  shows "parseLines attrs lines = Inr (foldl readLine attrs lines)"
  using assms
proof (induction lines arbitrary: attrs)
  case Nil
  show ?case by simp
next
  case (Cons line lines)
  then have IH: "\<And>a. parseLines a lines = Inr (foldl readLine a lines)" by simp
  show ?case
  proof (cases "line = []")
    case True
    then show ?thesis by (simp add: IH readLine_empty)
  next
    case False
    with Cons.prems have "CHR ''='' \<in> set line" by simp
    then show ?thesis using False
      by (simp add: SplitN2_separator index_def IH readLine_line)
  qed
qed


lemma recognized_keys_distinct:
  "attributeUUIDKey \<noteq> attributeLabelKey" "attributeUUIDKey \<noteq> attributeTypeKey"
  "attributeLabelKey \<noteq> attributeTypeKey"
  by (simp_all add: attributeUUIDKey_def attributeLabelKey_def attributeTypeKey_def)

lemma fieldOf_setAttribute:
  "recognized key \<Longrightarrow>
   fieldOf key (setAttribute attrs k v) = (if k = key then v else fieldOf key attrs)"
  using recognized_keys_distinct
  by (auto simp: fieldOf_def setAttribute_def recognized_def)

lemma fieldOf_readLine:
  "recognized key \<Longrightarrow>
   fieldOf key (readLine attrs line) =
     (if line \<noteq> [] \<and> keyOf line = key then valueOf line else fieldOf key attrs)"
  by (simp add: readLine_def fieldOf_setAttribute)

lemma fieldOf_foldl:
  assumes "recognized key"
  shows "fieldOf key (foldl readLine attrs lines) =
     (case reportedValue key lines of None \<Rightarrow> fieldOf key attrs | Some v \<Rightarrow> v)"
proof (induction lines rule: rev_induct)
  case Nil
  show ?case by (simp add: reportedValue_def)
next
  case (snoc line lines)
  show ?case
  proof (cases "line \<noteq> [] \<and> keyOf line = key")
    case True
    then show ?thesis using assms
      by (simp add: fieldOf_readLine reportedValue_def)
  next
    case False
    then have "reportedValue key (lines @ [line]) = reportedValue key lines"
      by (auto simp: reportedValue_def)
    with False snoc assms show ?thesis
      by (auto simp: fieldOf_readLine)
  qed
qed

lemma GetAttributes_well_formed:
  assumes "run ''blkid'' [''-o'', ''export'', DeviceName bd] = Inr output"
    and "\<forall>line \<in> set (Split output (CHR 0x0A)). line \<noteq> [] \<longrightarrow> CHR ''='' \<in> set line"
  shows "GetAttributes run bd = Inr (Inr (foldl readLine zeroAttributes (Split output (CHR 0x0A))))"
  using assms(1) parseLines_well_formed [OF assms(2)]
  by (simp add: GetAttributes_def)

lemma example_outputs:
  "Split ''UUID=abc-123\<newline>TYPE=ext4\<newline>'' (CHR 0x0A) = [''UUID=abc-123'', ''TYPE=ext4'', []]"
  "Split ''UUID=abc-123\<newline>TYPE=ext4\<newline>LABEL=\<newline>'' (CHR 0x0A) =
     [''UUID=abc-123'', ''TYPE=ext4'', ''LABEL='', []]"
  "Split ''UUID=abc-123\<newline>TYPE'' (CHR 0x0A) = [''UUID=abc-123'', ''TYPE'']"
  "Split ''LABEL=old\<newline>LABEL=new\<newline>UUID=1\<newline>'' (CHR 0x0A) =
     [''LABEL=old'', ''LABEL=new'', ''UUID=1'', []]"
  by simp_all

lemma example_lookups:
  "GetAttributes (blkid_prints ''UUID=abc-123\<newline>TYPE=ext4\<newline>'') example_disk =
     Inr (Inr \<lparr>Attributes_UUID = ''abc-123'', Attributes_Type = ''ext4'', Attributes_Label = []\<rparr>)"
  "GetAttributes (blkid_prints ''UUID=abc-123\<newline>TYPE=ext4\<newline>LABEL=\<newline>'') example_disk =
     Inr (Inr \<lparr>Attributes_UUID = ''abc-123'', Attributes_Type = ''ext4'', Attributes_Label = []\<rparr>)"
  "GetAttributes (blkid_prints ''LABEL=old\<newline>LABEL=new\<newline>UUID=1\<newline>'') example_disk =
     Inr (Inr \<lparr>Attributes_UUID = ''1'', Attributes_Type = [], Attributes_Label = ''new''\<rparr>)"
  "GetAttributes (blkid_prints ''UUID=abc-123\<newline>TYPE'') example_disk = Inl (IndexOutOfRange 1 1)"
  by (simp_all add: GetAttributes_def blkid_prints_def SplitN2_def index_def setAttribute_def
      attributeUUIDKey_def attributeLabelKey_def attributeTypeKey_def zeroAttributes_def)

text \<open>
  Claim C4 says that an output with a non-empty line without \<open>=\<close> makes the lookup fail
  with a parse error and never crash. The code does neither: on every such output
  \<open>GetAttributes\<close> panics, reading index 1 of the one-element result of \<open>SplitN\<close> at the
  first such line; it returns no record and no error.
\<close>

theorem GetAttributes_panics_without_separator:
  assumes "run ''blkid'' [''-o'', ''export'', DeviceName bd] = Inr output"
    and "\<exists>line \<in> set (Split output (CHR 0x0A)). line \<noteq> [] \<and> CHR ''='' \<notin> set line"
  shows "GetAttributes run bd = Inl (IndexOutOfRange 1 1)"
  using assms(1) parseLines_malformed [OF assms(2)]
  by (simp add: GetAttributes_def)

theorem GetAttributes_panics_without_separator_witness:
  "blkid_prints ''UUID=abc-123\<newline>TYPE'' ''blkid'' [''-o'', ''export'', DeviceName example_disk] =
     Inr ''UUID=abc-123\<newline>TYPE'' \<and>
   ''TYPE'' \<in> set (Split ''UUID=abc-123\<newline>TYPE'' (CHR 0x0A)) \<and>
   ''TYPE'' \<noteq> [] \<and> CHR ''='' \<notin> set ''TYPE'' \<and>
   GetAttributes (blkid_prints ''UUID=abc-123\<newline>TYPE'') example_disk = Inl (IndexOutOfRange 1 1)"
  using GetAttributes_panics_without_separator
    [of "blkid_prints ''UUID=abc-123\<newline>TYPE''" example_disk "''UUID=abc-123\<newline>TYPE''"]
  by (simp add: blkid_prints_def)

text \<open>
  Claim C9, as stated, fails: a field that the output does not report cannot be told from a
  field reported empty. The output without a \<open>LABEL\<close> line and the output with the line
  \<open>LABEL=\<close> give the same record.
\<close>

theorem absent_and_empty_label_counterexample:
  "reportedValue attributeLabelKey (Split ''UUID=abc-123\<newline>TYPE=ext4\<newline>'' (CHR 0x0A)) = None \<and>
   reportedValue attributeLabelKey
     (Split ''UUID=abc-123\<newline>TYPE=ext4\<newline>LABEL=\<newline>'' (CHR 0x0A)) = Some [] \<and>
   GetAttributes (blkid_prints ''UUID=abc-123\<newline>TYPE=ext4\<newline>'') example_disk =
     Inr (Inr \<lparr>Attributes_UUID = ''abc-123'', Attributes_Type = ''ext4'', Attributes_Label = []\<rparr>) \<and>
   GetAttributes (blkid_prints ''UUID=abc-123\<newline>TYPE=ext4\<newline>LABEL=\<newline>'') example_disk =
     Inr (Inr \<lparr>Attributes_UUID = ''abc-123'', Attributes_Type = ''ext4'', Attributes_Label = []\<rparr>)"
  by (simp add: example_lookups reportedValue_def keyOf_def valueOf_def attributeLabelKey_def)

lemma field_selectors:
  "Attributes_UUID attrs = fieldOf attributeUUIDKey attrs"
  "Attributes_Label attrs = fieldOf attributeLabelKey attrs"
  "Attributes_Type attrs = fieldOf attributeTypeKey attrs"
  using recognized_keys_distinct by (simp_all add: fieldOf_def)

lemma recognized_keys: 
  "recognized attributeUUIDKey" "recognized attributeLabelKey" "recognized attributeTypeKey"
  by (simp_all add: recognized_def)

lemma fieldOf_zeroAttributes: "fieldOf key zeroAttributes = []"
  by (simp add: fieldOf_def zeroAttributes_def)

text \<open>
  Claim C9, amended. On a well-formed output (every non-empty line has a \<open>=\<close>) the lookup
  returns a record whose UUID, Type and Label fields are the values that the output
  reports for the keys \<open>UUID\<close>, \<open>TYPE\<close> and \<open>LABEL\<close>; a field whose key no line
  carries is the empty string, as is a field reported with the empty value. The record
  depends on nothing else, so lines with other keys are ignored. The output
  \<open>UUID=abc-123\<close>, \<open>TYPE=ext4\<close> gives uuid \<open>abc-123\<close>, type \<open>ext4\<close> and the empty label.
\<close>

theorem GetAttributes_fields:
  assumes "run ''blkid'' [''-o'', ''export'', DeviceName bd] = Inr output"
    and "\<forall>line \<in> set (Split output (CHR 0x0A)). line \<noteq> [] \<longrightarrow> CHR ''='' \<in> set line"
  shows "GetAttributes run bd =
     Inr (Inr
       \<lparr>Attributes_UUID =
          (case reportedValue attributeUUIDKey (Split output (CHR 0x0A)) of
             None \<Rightarrow> [] | Some v \<Rightarrow> v),
        Attributes_Type =
          (case reportedValue attributeTypeKey (Split output (CHR 0x0A)) of
             None \<Rightarrow> [] | Some v \<Rightarrow> v),
        Attributes_Label =
          (case reportedValue attributeLabelKey (Split output (CHR 0x0A)) of
             None \<Rightarrow> [] | Some v \<Rightarrow> v)\<rparr>)"
proof -
  let ?attrs = "foldl readLine zeroAttributes (Split output (CHR 0x0A))"
  have "GetAttributes run bd = Inr (Inr ?attrs)"
    using assms by (rule GetAttributes_well_formed)
  moreover have "Attributes_UUID ?attrs =
      (case reportedValue attributeUUIDKey (Split output (CHR 0x0A)) of None \<Rightarrow> [] | Some v \<Rightarrow> v)"
    unfolding field_selectors(1)
    by (simp add: fieldOf_foldl recognized_keys fieldOf_zeroAttributes split: option.split)
  moreover have "Attributes_Type ?attrs =
      (case reportedValue attributeTypeKey (Split output (CHR 0x0A)) of None \<Rightarrow> [] | Some v \<Rightarrow> v)"
    unfolding field_selectors(3)
    by (simp add: fieldOf_foldl recognized_keys fieldOf_zeroAttributes split: option.split)
  moreover have "Attributes_Label ?attrs =
      (case reportedValue attributeLabelKey (Split output (CHR 0x0A)) of None \<Rightarrow> [] | Some v \<Rightarrow> v)"
    unfolding field_selectors(2)
    by (simp add: fieldOf_foldl recognized_keys fieldOf_zeroAttributes split: option.split)
  ultimately show ?thesis by (simp add: Attributes.equality)
qed

theorem GetAttributes_fields_witness:
  "blkid_prints ''UUID=abc-123\<newline>TYPE=ext4\<newline>'' ''blkid''
     [''-o'', ''export'', DeviceName example_disk] = Inr ''UUID=abc-123\<newline>TYPE=ext4\<newline>'' \<and>
   Split ''UUID=abc-123\<newline>TYPE=ext4\<newline>'' (CHR 0x0A) = [''UUID=abc-123'', ''TYPE=ext4'', []] \<and>
   CHR ''='' \<in> set ''UUID=abc-123'' \<and> CHR ''='' \<in> set ''TYPE=ext4'' \<and>
   GetAttributes (blkid_prints ''UUID=abc-123\<newline>TYPE=ext4\<newline>'') example_disk =
     Inr (Inr \<lparr>Attributes_UUID = ''abc-123'', Attributes_Type = ''ext4'', Attributes_Label = []\<rparr>)"
  using GetAttributes_fields
    [of "blkid_prints ''UUID=abc-123\<newline>TYPE=ext4\<newline>''" example_disk
        "''UUID=abc-123\<newline>TYPE=ext4\<newline>''"]
  by (simp add: blkid_prints_def reportedValue_def keyOf_def valueOf_def
      attributeUUIDKey_def attributeLabelKey_def attributeTypeKey_def)

lemma recognized_no_separator: "recognized key \<Longrightarrow> CHR ''='' \<notin> set key"
  by (auto simp: recognized_def attributeUUIDKey_def attributeLabelKey_def attributeTypeKey_def)

lemma keyOf_line: "CHR ''='' \<notin> set key \<Longrightarrow> keyOf (key @ ''='' @ v) = key"
  unfolding keyOf_def by (induction key) auto

lemma valueOf_line: "CHR ''='' \<notin> set key \<Longrightarrow> valueOf (key @ ''='' @ v) = v"
  unfolding valueOf_def by (induction key) auto

lemma reportedValue_last:
  assumes "CHR ''='' \<notin> set key"
    and "\<forall>line \<in> set after. line \<noteq> [] \<longrightarrow> keyOf line \<noteq> key"
  shows "reportedValue key (before @ (key @ ''='' @ v) # after) = Some v"
proof -
  have "filter (\<lambda>line. line \<noteq> [] \<and> keyOf line = key) after = []"
    using assms(2) by (auto simp: filter_empty_conv)
  then show ?thesis
    using assms(1) keyOf_line [OF assms(1), of v] valueOf_line [OF assms(1), of v]
    by (simp add: reportedValue_def)
qed

text \<open>
  Claim C10. When several lines of a well-formed output carry the same recognized key,
  the lookup returns the value of the last of them: if the line \<open>key=v\<close> is followed by
  no line with that key, the field of \<open>key\<close> is \<open>v\<close>, whatever the lines before it set.
\<close>

theorem GetAttributes_last_line_wins:
  assumes "run ''blkid'' [''-o'', ''export'', DeviceName bd] = Inr output"
    and "Split output (CHR 0x0A) = before @ (key @ ''='' @ v) # after"
    and "\<forall>line \<in> set (Split output (CHR 0x0A)). line \<noteq> [] \<longrightarrow> CHR ''='' \<in> set line"
    and "key = attributeUUIDKey \<or> key = attributeTypeKey \<or> key = attributeLabelKey"
    and "\<forall>line \<in> set after. line \<noteq> [] \<longrightarrow> takeWhile (\<lambda>c. c \<noteq> CHR ''='') line \<noteq> key"
  shows "\<exists>attrs. GetAttributes run bd = Inr (Inr attrs) \<and>
           (key = attributeUUIDKey \<longrightarrow> Attributes_UUID attrs = v) \<and>
           (key = attributeTypeKey \<longrightarrow> Attributes_Type attrs = v) \<and>
           (key = attributeLabelKey \<longrightarrow> Attributes_Label attrs = v)"
proof -
  let ?attrs = "foldl readLine zeroAttributes (Split output (CHR 0x0A))"
  have r: "recognized key"
    using assms(4) by (auto simp: recognized_def)
  have g: "GetAttributes run bd = Inr (Inr ?attrs)"
    using assms(1,3) by (rule GetAttributes_well_formed)
  have "reportedValue key (Split output (CHR 0x0A)) = Some v"
    unfolding assms(2)
    using recognized_no_separator [OF r] assms(5)
    by (intro reportedValue_last) (simp_all add: keyOf_def)
  then have "fieldOf key ?attrs = v"
    by (simp add: fieldOf_foldl [OF r])
  then have "(key = attributeUUIDKey \<longrightarrow> Attributes_UUID ?attrs = v) \<and>
           (key = attributeTypeKey \<longrightarrow> Attributes_Type ?attrs = v) \<and>
           (key = attributeLabelKey \<longrightarrow> Attributes_Label ?attrs = v)"
    by (auto simp: field_selectors)
  with g show ?thesis by blast
qed

theorem GetAttributes_last_line_wins_witness:
  "blkid_prints ''LABEL=old\<newline>LABEL=new\<newline>UUID=1\<newline>'' ''blkid''
     [''-o'', ''export'', DeviceName example_disk] =
     Inr ''LABEL=old\<newline>LABEL=new\<newline>UUID=1\<newline>'' \<and>
   Split ''LABEL=old\<newline>LABEL=new\<newline>UUID=1\<newline>'' (CHR 0x0A) =
     [''LABEL=old''] @ (''LABEL'' @ ''='' @ ''new'') # [''UUID=1'', []] \<and>
   ''LABEL'' = attributeLabelKey \<and>
   takeWhile (\<lambda>c. c \<noteq> CHR ''='') ''UUID=1'' \<noteq> ''LABEL'' \<and>
   GetAttributes (blkid_prints ''LABEL=old\<newline>LABEL=new\<newline>UUID=1\<newline>'') example_disk =
     Inr (Inr \<lparr>Attributes_UUID = ''1'', Attributes_Type = [], Attributes_Label = ''new''\<rparr>) \<and>
   Attributes_Label \<lparr>Attributes_UUID = ''1'', Attributes_Type = [], Attributes_Label = ''new''\<rparr> =
     ''new''"
  using GetAttributes_last_line_wins
    [of "blkid_prints ''LABEL=old\<newline>LABEL=new\<newline>UUID=1\<newline>''" example_disk
        "''LABEL=old\<newline>LABEL=new\<newline>UUID=1\<newline>''"
        "[''LABEL=old'']" "''LABEL''" "''new''" "[''UUID=1'', []]"]
  by (simp add: example_lookups blkid_prints_def attributeLabelKey_def)

subsection \<open>The size ordering\<close>

lemma insertLast_Nil: "insertLast x [] = [x]"
  by (simp add: insertLast_def)

lemma insertLast_snoc:
  "insertLast x (ys @ [y]) =
     (if Disk_Size x < Disk_Size y then insertLast x ys @ [y] else ys @ [y, x])"
  by (simp add: insertLast_def)

lemma length_insertLast: "length (insertLast x xs) = Suc (length xs)"
proof -
  have "length (dropWhile (\<lambda>y. Disk_Size x < Disk_Size y) (rev xs)) +
        length (takeWhile (\<lambda>y. Disk_Size x < Disk_Size y) (rev xs)) = length (rev xs)"
    by (metis add.commute length_append takeWhile_dropWhile_id)
  then show ?thesis by (simp add: insertLast_def)
qed

lemma Less_adjacent:
  "length ys = j \<Longrightarrow> Less (ys @ y # x # rest) (Suc j) j = Inr (Disk_Size x < Disk_Size y)"
  by (simp add: Less_def index_def nth_append)

lemma Swap_adjacent:
  "length ys = j \<Longrightarrow> Swap (ys @ y # x # rest) (Suc j) j = Inr (ys @ x # y # rest)"
  by (simp add: Swap_def index_def nth_append list_update_append)

lemma sink_inserts:
  "length xs = j \<Longrightarrow> sink (xs @ x # rest) j = Inr (insertLast x xs @ rest)"
proof (induction xs arbitrary: j rest rule: rev_induct)
  case Nil
  then show ?case by (simp add: insertLast_Nil)
next
  case (snoc y ys)
  then obtain j' where j: "j = Suc j'" and l: "length ys = j'" by (cases j) auto
  have less: "Less ((ys @ [y]) @ x # rest) (Suc j') j' = Inr (Disk_Size x < Disk_Size y)"
    using Less_adjacent [OF l] by simp
  have swap: "Swap ((ys @ [y]) @ x # rest) (Suc j') j' = Inr (ys @ x # y # rest)"
    using Swap_adjacent [OF l] by simp
  show ?case
  proof (cases "Disk_Size x < Disk_Size y")
    case True
    have "sink (ys @ x # y # rest) j' = Inr (insertLast x ys @ y # rest)"
      using l by (rule snoc.IH)
    with True show ?thesis
      unfolding j by (simp add: less swap insertLast_snoc del: append_assoc)
  next
    case False
    then show ?thesis
      unfolding j by (simp add: less insertLast_snoc del: append_assoc)
  qed
qed

lemma insertionSort_loop_inserts:
  "length front = i \<Longrightarrow> i + length todo = n \<Longrightarrow>
   insertionSort_loop (front @ todo) [i..<n] = Inr (insertAll front todo)"
proof (induction todo arbitrary: front i)
  case Nil
  then show ?case by simp
next
  case (Cons x todo)
  then have "i < n" by simp
  then have upt: "[i..<n] = i # [Suc i..<n]" by (rule upt_conv_Cons)
  have s: "sink (front @ x # todo) i = Inr (insertLast x front @ todo)"
    using Cons.prems(1) by (rule sink_inserts)
  have "insertionSort_loop (insertLast x front @ todo) [Suc i..<n] =
      Inr (insertAll (insertLast x front) todo)"
    using Cons.prems by (intro Cons.IH) (simp_all add: length_insertLast)
  then show ?case by (simp add: upt s)
qed

lemma SizeOrdering_insertAll: "SizeOrdering ds = Inr (insertAll [] ds)"
proof (cases ds)
  case Nil
  then show ?thesis by (simp add: SizeOrdering_def insertionSort_def Len_def)
next
  case (Cons x rest)
  have "insertionSort_loop ([x] @ rest) [1..<length (x # rest)] = Inr (insertAll [x] rest)"
    by (rule insertionSort_loop_inserts) simp_all
  with Cons show ?thesis
    by (simp add: SizeOrdering_def insertionSort_def Len_def insertLast_Nil)
qed

lemma insertLast_split:
  "\<exists>as bs. xs = as @ bs \<and> insertLast x xs = as @ x # bs \<and>
     (\<forall>b \<in> set bs. Disk_Size x < Disk_Size b) \<and>
     (as \<noteq> [] \<longrightarrow> Disk_Size (last as) \<le> Disk_Size x)"
proof -
  let ?P = "\<lambda>y. Disk_Size x < Disk_Size y"
  let ?as = "rev (dropWhile ?P (rev xs))" and ?bs = "rev (takeWhile ?P (rev xs))"
  have 1: "xs = ?as @ ?bs"
    by (metis rev_append rev_rev_ident takeWhile_dropWhile_id)
  have 2: "insertLast x xs = ?as @ x # ?bs" by (simp add: insertLast_def)
  have 3: "\<forall>b \<in> set ?bs. ?P b" by (auto dest: set_takeWhileD)
  have 4: "Disk_Size (last ?as) \<le> Disk_Size x" if "?as \<noteq> []"
  proof -
    from that have ne: "dropWhile ?P (rev xs) \<noteq> []" by simp
    then have "\<not> ?P (hd (dropWhile ?P (rev xs)))" by (rule hd_dropWhile)
    moreover have "last ?as = hd (dropWhile ?P (rev xs))" using ne by (simp add: last_rev)
    ultimately show ?thesis by simp
  qed
  from 1 2 3 4 show ?thesis by blast
qed

lemma mset_insertLast: "mset (insertLast x xs) = add_mset x (mset xs)"
proof -
  obtain as bs where "xs = as @ bs" "insertLast x xs = as @ x # bs"
    using insertLast_split by blast
  then show ?thesis by simp
qed

lemma filter_insertLast:
  "filter (\<lambda>d. Disk_Size d = k) (insertLast x xs) = filter (\<lambda>d. Disk_Size d = k) (xs @ [x])"
proof -
  obtain as bs where s: "xs = as @ bs" "insertLast x xs = as @ x # bs"
    and gt: "\<forall>b \<in> set bs. Disk_Size x < Disk_Size b"
    using insertLast_split by blast
  show ?thesis
  proof (cases "Disk_Size x = k")
    case True
    with gt have "filter (\<lambda>d. Disk_Size d = k) bs = []"
      by (auto simp: filter_empty_conv)
    with s True show ?thesis by simp
  next
    case False
    with s show ?thesis by simp
  qed
qed

lemma sorted_insertLast:
  assumes "sorted (map Disk_Size xs)"
  shows "sorted (map Disk_Size (insertLast x xs))"
proof -
  obtain as bs where s: "xs = as @ bs" "insertLast x xs = as @ x # bs"
    and gt: "\<forall>b \<in> set bs. Disk_Size x < Disk_Size b"
    and le: "as \<noteq> [] \<longrightarrow> Disk_Size (last as) \<le> Disk_Size x"
    using insertLast_split by blast
  from assms s have sa: "sorted (map Disk_Size as)" and sb: "sorted (map Disk_Size bs)"
    by (simp_all add: sorted_append)
  have le_all: "Disk_Size a \<le> Disk_Size x" if "a \<in> set as" for a
  proof -
    from that have ne: "as \<noteq> []" by auto
    then have "as = butlast as @ [last as]" by simp
    then have "sorted (map Disk_Size (butlast as @ [last as]))" using sa by simp
    then have "\<forall>b \<in> set (butlast as). Disk_Size b \<le> Disk_Size (last as)"
      by (simp add: sorted_append)
    moreover from that ne have "a \<in> set (butlast as) \<or> a = last as"
      by (metis Un_iff append_butlast_last_id empty_iff empty_set set_ConsD set_append)
    ultimately have "Disk_Size a \<le> Disk_Size (last as)" by auto
    with le ne show ?thesis by simp
  qed
  have "Disk_Size a \<le> Disk_Size b" if "a \<in> set as" "b \<in> set bs" for a b
    using le_all [OF that(1)] gt that(2) by fastforce
  with sa sb gt le_all show ?thesis
    unfolding s(2) by (auto simp: sorted_append less_imp_le)
qed

lemma mset_insertAll: "mset (insertAll front todo) = mset front + mset todo"
  by (induction todo arbitrary: front) (simp_all add: mset_insertLast)

lemma filter_insertAll:
  "filter (\<lambda>d. Disk_Size d = k) (insertAll front todo) =
   filter (\<lambda>d. Disk_Size d = k) (front @ todo)"
  by (induction todo arbitrary: front) (simp_all add: filter_insertLast)

lemma sorted_insertAll:
  "sorted (map Disk_Size front) \<Longrightarrow> sorted (map Disk_Size (insertAll front todo))"
  by (induction todo arbitrary: front) (simp_all add: sorted_insertLast)

text \<open>
  Claim C7. The ascending ordering of a collection by size, made by insertion sort over
  the collection's \<open>Len\<close>, \<open>Less\<close> and \<open>Swap\<close>, never panics and returns the same disks
  sorted by size with the disks of each size in their order in the input, since \<open>Less\<close>
  is strict. Disks of sizes 100, 50, 100, 10 come out with sizes 10, 50, 100, 100, the
  first disk of size 100 (\<open>sda\<close>) still before the second (\<open>sdc\<close>).
\<close>

theorem SizeOrdering_stable:
  "(\<exists>out. SizeOrdering ds = Inr out \<and>
      sorted (map Disk_Size out) \<and> mset out = mset ds \<and>
      (\<forall>k. filter (\<lambda>d. Disk_Size d = k) out = filter (\<lambda>d. Disk_Size d = k) ds)) \<and>
   map Disk_Size example_slice = [100, 50, 100, 10] \<and>
   SizeOrdering example_slice =
     Inr [\<lparr>Disk_Name = ''sdd'', Disk_Size = 10\<rparr>, \<lparr>Disk_Name = ''sdb'', Disk_Size = 50\<rparr>,
          \<lparr>Disk_Name = ''sda'', Disk_Size = 100\<rparr>, \<lparr>Disk_Name = ''sdc'', Disk_Size = 100\<rparr>]"
proof (intro conjI)
  have "sorted (map Disk_Size (insertAll [] ds))"
    by (rule sorted_insertAll) simp
  moreover have "mset (insertAll [] ds) = mset ds"
    by (simp add: mset_insertAll)
  moreover have "\<forall>k. filter (\<lambda>d. Disk_Size d = k) (insertAll [] ds) =
      filter (\<lambda>d. Disk_Size d = k) ds"
    by (simp add: filter_insertAll)
  ultimately show "\<exists>out. SizeOrdering ds = Inr out \<and>
      sorted (map Disk_Size out) \<and> mset out = mset ds \<and>
      (\<forall>k. filter (\<lambda>d. Disk_Size d = k) out = filter (\<lambda>d. Disk_Size d = k) ds)"
    using SizeOrdering_insertAll [of ds] by blast
  show "map Disk_Size example_slice = [100, 50, 100, 10]"
    by (simp add: example_slice_def)
  show "SizeOrdering example_slice =
     Inr [\<lparr>Disk_Name = ''sdd'', Disk_Size = 10\<rparr>, \<lparr>Disk_Name = ''sdb'', Disk_Size = 50\<rparr>,
          \<lparr>Disk_Name = ''sda'', Disk_Size = 100\<rparr>, \<lparr>Disk_Name = ''sdc'', Disk_Size = 100\<rparr>]"
    by (simp add: SizeOrdering_insertAll example_slice_def insertLast_def)
qed

end
